theory Spec2Isabelle
  imports Complex_Main "HOL-Library.AList"
begin

section \<open>Python values and errors\<close>

text \<open>
  Python numbers are modelled by exact reals: an \<open>int\<close> is represented exactly, a
  \<open>float\<close> is idealised (no rounding error, no NaN, no infinity). A value read from a
  snapshot is a number or a string; the exceptions of the source are values of \<open>pyerr\<close>.
\<close>

datatype pyval = Num real | Str string

datatype pyerr = TypeError | ValueError | KeyError | ZeroDivisionError | AttributeError

section \<open>const.py: state and error code texts\<close>

text \<open>Decimal text of an integer, as \<open>str\<close> and an f-string field produce it.\<close>

function str_nat :: "nat \<Rightarrow> string" where
  "str_nat n =
     (if n < 10 then [''0123456789'' ! n]
      else str_nat (n div 10) @ [''0123456789'' ! (n mod 10)])"
  by pat_completeness auto
termination
  by (relation "measure (\<lambda>n. n)") auto

declare str_nat.simps [simp del]

definition str_int :: "int \<Rightarrow> string" where
  "str_int i = (if i < 0 then CHR ''-'' # str_nat (nat (- i)) else str_nat (nat i))"

definition VARTA_STATE_MAP :: "(int \<times> string) list" where
  "VARTA_STATE_MAP =
    [(0, ''Busy (Beschaeftigt)''),
     (1, ''Run (Betrieb)''),
     (2, ''Charge (Laden)''),
     (3, ''Discharge (Entladen)''),
     (4, ''Standby''),
     (5, ''Error (Fehler)''),
     (6, ''Passive (Service)''),
     (7, ''Islanding (Inselbetrieb)''),
     (8, ''Grid Outage (Netzausfall)''),
     (9, ''Self Test (Selbsttest)''),
     (10, ''Update''),
     (11, ''Maintenance (Wartung)'')]"

definition VARTA_ERROR_MAP :: "(int \<times> string) list" where
  "VARTA_ERROR_MAP =
    [(0, ''No Error (Kein Fehler)''),
     (1, ''General Error (Allgemeiner Fehler)''),
     (2, ''Battery Error (Batteriefehler)''),
     (3, ''Inverter Error (Wechselrichterfehler)''),
     (4, ''Grid Error (Netzfehler)''),
     (5, ''Communication Error (Kommunikationsfehler)''),
     (6, ''Temperature Error (Temperaturfehler)''),
     (7, ''Overcurrent (Ueberstrom)''),
     (8, ''Overvoltage (Ueberspannung)''),
     (9, ''Undervoltage (Unterspannung)''),
     (10, ''Overtemperature (Uebertemperatur)''),
     (11, ''Undertemperature (Untertemperatur)''),
     (12, ''Isolation Error (Isolationsfehler)''),
     (13, ''Cell Imbalance (Zellenungleichgewicht)''),
     (14, ''BMS Error (BMS-Fehler)''),
     (15, ''EMS Error (EMS-Fehler)''),
     (16, ''ENS Error (ENS-Fehler)''),
     (17, ''Fan Error (Luefterfehler)''),
     (18, ''Fuse Error (Sicherungsfehler)''),
     (19, ''Relay Error (Relaisfehler)''),
     (20, ''Sensor Error (Sensorfehler)''),
     (255, ''Unknown Error (Unbekannter Fehler)'')]"

text \<open>\<open>d.get(k, default)\<close> on a dictionary literal.\<close>

definition dict_get_default :: "('k \<times> 'v) list \<Rightarrow> 'k \<Rightarrow> 'v \<Rightarrow> 'v" where
  "dict_get_default d k dflt = (case map_of d k of None \<Rightarrow> dflt | Some v \<Rightarrow> v)"

definition get_state_text :: "int option \<Rightarrow> string" where
  "get_state_text state_code =
     (case state_code of
        None \<Rightarrow> ''Unknown''
      | Some c \<Rightarrow>
          dict_get_default VARTA_STATE_MAP c (''Unknown State ('' @ str_int c @ '')''))"

definition get_error_text :: "int option \<Rightarrow> string" where
  "get_error_text error_code =
     (case error_code of
        None \<Rightarrow> ''Unknown''
      | Some c \<Rightarrow>
          if c = 0 then ''No Error (Kein Fehler)''
          else dict_get_default VARTA_ERROR_MAP c (''Unknown Error ('' @ str_int c @ '')''))"

section \<open>Arithmetic of snapshot values\<close>

type_synonym snapshot = "string \<rightharpoonup> pyval"

text \<open>
  The operators the derived metrics apply to snapshot values. Two numbers combine as
  numbers, \<open>+\<close> concatenates two strings, every other combination raises \<open>TypeError\<close>;
  true division by zero raises \<open>ZeroDivisionError\<close>.
\<close>

fun py_add :: "pyval \<Rightarrow> pyval \<Rightarrow> pyerr + pyval" where
  "py_add (Num a) (Num b) = Inr (Num (a + b))"
| "py_add (Str a) (Str b) = Inr (Str (a @ b))"
| "py_add _ _ = Inl TypeError"

fun py_sub :: "pyval \<Rightarrow> pyval \<Rightarrow> pyerr + pyval" where
  "py_sub (Num a) (Num b) = Inr (Num (a - b))"
| "py_sub _ _ = Inl TypeError"

fun py_truediv :: "pyval \<Rightarrow> pyval \<Rightarrow> pyerr + pyval" where
  "py_truediv (Num a) (Num b) = (if b = 0 then Inl ZeroDivisionError else Inr (Num (a / b)))"
| "py_truediv _ _ = Inl TypeError"

text \<open>\<open>v > 0\<close>: a string does not compare with a number.\<close>

fun py_gt_zero :: "pyval \<Rightarrow> pyerr + bool" where
  "py_gt_zero (Num a) = Inr (0 < a)"
| "py_gt_zero (Str _) = Inl TypeError"

text \<open>\<open>v == 0\<close>: never raises, a string is not equal to a number.\<close>

fun py_eq_zero :: "pyval \<Rightarrow> bool" where
  "py_eq_zero (Num a) = (a = 0)"
| "py_eq_zero (Str _) = False"

text \<open>
  \<open>round(x, n)\<close> on the idealised numbers: the nearest multiple of \<open>10 ^ (- n)\<close>, a tie
  going to the even one.
\<close>

definition round_half_even :: "real \<Rightarrow> int" where
  "round_half_even x =
     (let f = \<lfloor>x\<rfloor>; d = x - of_int f
      in if d < 1 / 2 then f else if 1 / 2 < d then f + 1 else if even f then f else f + 1)"

definition py_round :: "real \<Rightarrow> nat \<Rightarrow> real" where
  "py_round x n = of_int (round_half_even (x * 10 ^ n)) / 10 ^ n"

section \<open>sensor.py: the calculated sensor\<close>

text \<open>
  What every sensor entity holds: \<open>_attr_native_value\<close>, and the values it has handed to
  the host with \<open>async_write_ha_state\<close>, oldest first.
  \<open>VartaCalculatedSensor\<close> adds the fields its calculations read and write. The import
  and the export sensor are two instances of the class, each with its own state.
\<close>

record sensor_entity =
  attr_native_value :: "real option"
  published :: "real option list"

record calculated_sensor = sensor_entity +
  daily_import :: real
  daily_export :: real
  last_import_total :: "pyval option"
  last_export_total :: "pyval option"
  last_reset_date :: "string option"

text \<open>The state \<open>__init__\<close> sets up.\<close>

definition calculated_sensor_init :: calculated_sensor where
  "calculated_sensor_init =
     \<lparr>attr_native_value = None, published = [],
      daily_import = 0, daily_export = 0, last_import_total = None,
      last_export_total = None, last_reset_date = None\<rparr>"

text \<open>
  \<open>_calculate_daily_net_import\<close>: \<open>today\<close> is the ISO text of the local calendar date.
  The result is the returned value or the exception raised, with the state as the call
  leaves it.
\<close>

definition calculate_daily_net_import ::
  "string \<Rightarrow> snapshot \<Rightarrow> calculated_sensor \<Rightarrow> (pyerr + real option) \<times> calculated_sensor"
where
  "calculate_daily_net_import today cgi_data s =
     (let s1 = (if last_reset_date s \<noteq> Some today
                then s\<lparr>daily_import := 0, last_import_total := None,
                       last_reset_date := Some today\<rparr>
                else s)
      in case cgi_data ''total_grid_ac_dc'' of
           None \<Rightarrow> (Inr (Some (daily_import s1)), s1)
         | Some current_total \<Rightarrow>
             (case last_import_total s1 of
                None \<Rightarrow>
                  (Inr (Some (py_round (daily_import s1) 3)),
                   s1\<lparr>last_import_total := Some current_total\<rparr>)
              | Some last_total \<Rightarrow>
                  (case py_sub current_total last_total of
                     Inl e \<Rightarrow> (Inl e, s1)
                   | Inr delta \<Rightarrow>
                       (case py_gt_zero delta of
                          Inl e \<Rightarrow> (Inl e, s1)
                        | Inr pos \<Rightarrow>
                            (let s2 = (if pos
                                       then s1\<lparr>daily_import :=
                                              daily_import s1 + (case delta of Num d \<Rightarrow> d | Str _ \<Rightarrow> 0)\<rparr>
                                       else s1)
                             in (Inr (Some (py_round (daily_import s2) 3)),
                                 s2\<lparr>last_import_total := Some current_total\<rparr>))))))"

text \<open>\<open>_calculate_daily_net_export\<close>: the same on the export counter.\<close>

definition calculate_daily_net_export ::
  "string \<Rightarrow> snapshot \<Rightarrow> calculated_sensor \<Rightarrow> (pyerr + real option) \<times> calculated_sensor"
where
  "calculate_daily_net_export today cgi_data s =
     (let s1 = (if last_reset_date s \<noteq> Some today
                then s\<lparr>daily_export := 0, last_export_total := None,
                       last_reset_date := Some today\<rparr>
                else s)
      in case cgi_data ''total_grid_dc_ac'' of
           None \<Rightarrow> (Inr (Some (daily_export s1)), s1)
         | Some current_total \<Rightarrow>
             (case last_export_total s1 of
                None \<Rightarrow>
                  (Inr (Some (py_round (daily_export s1) 3)),
                   s1\<lparr>last_export_total := Some current_total\<rparr>)
              | Some last_total \<Rightarrow>
                  (case py_sub current_total last_total of
                     Inl e \<Rightarrow> (Inl e, s1)
                   | Inr delta \<Rightarrow>
                       (case py_gt_zero delta of
                          Inl e \<Rightarrow> (Inl e, s1)
                        | Inr pos \<Rightarrow>
                            (let s2 = (if pos
                                       then s1\<lparr>daily_export :=
                                              daily_export s1 + (case delta of Num d \<Rightarrow> d | Str _ \<Rightarrow> 0)\<rparr>
                                       else s1)
                             in (Inr (Some (py_round (daily_export s2) 3)),
                                 s2\<lparr>last_export_total := Some current_total\<rparr>))))))"

text \<open>
  \<open>_calculate_battery_efficiency\<close> and \<open>_calculate_self_sufficiency\<close> read the
  snapshot only. \<open>cgi_data.get(k, 0)\<close> gives the number 0 for a missing field.
\<close>

definition calculate_battery_efficiency :: "snapshot \<Rightarrow> pyerr + real option" where
  "calculate_battery_efficiency cgi_data =
     (case (cgi_data ''total_inverter_ac_dc'', cgi_data ''total_inverter_dc_ac'') of
        (Some charged, Some discharged) \<Rightarrow>
          if py_eq_zero charged then Inr None
          else (case py_truediv discharged charged of
                  Inl e \<Rightarrow> Inl e
                | Inr (Num q) \<Rightarrow> Inr (Some (min (q * 100) 100))
                | Inr (Str _) \<Rightarrow> Inl TypeError)
      | _ \<Rightarrow> Inr None)"

definition snapshot_get_default :: "snapshot \<Rightarrow> string \<Rightarrow> pyval \<Rightarrow> pyval option" where
  "snapshot_get_default d k dflt = (case d k of None \<Rightarrow> Some dflt | Some v \<Rightarrow> Some v)"

definition calculate_self_sufficiency :: "snapshot \<Rightarrow> snapshot \<Rightarrow> pyerr + real option" where
  "calculate_self_sufficiency modbus_data cgi_data =
     (case (snapshot_get_default cgi_data ''total_grid_ac_dc'' (Num 0),
            snapshot_get_default cgi_data ''total_inverter_dc_ac'' (Num 0)) of
        (Some grid_import, Some battery_discharge) \<Rightarrow>
          (case py_add grid_import battery_discharge of
             Inl e \<Rightarrow> Inl e
           | Inr total_consumption \<Rightarrow>
               if py_eq_zero total_consumption then Inr (Some 100)
               else (case py_truediv battery_discharge total_consumption of
                       Inl e \<Rightarrow> Inl e
                     | Inr (Num q) \<Rightarrow> Inr (Some (min (max (q * 100) 0) 100))
                     | Inr (Str _) \<Rightarrow> Inl TypeError))
      | _ \<Rightarrow> Inr None)"

text \<open>
  The catalog keys whose calculation is modelled; \<open>_async_calculate\<close> selects the
  calculation by the key of the sensor's description.
\<close>

datatype metric = DailyNetGridImport | DailyNetGridExport | BatteryEfficiency | SelfSufficiencyRate

text \<open>
  \<open>_async_calculate\<close>: \<open>coordinator_data\<close> is the Modbus coordinator's snapshot (\<open>None\<close>
  before the first fetch), \<open>cgi_coordinator\<close> the snapshot of the CGI coordinator when
  there is one. The argument \<open>now\<close> of the source is not read; the date comes from the
  clock, here \<open>today\<close>. A \<open>KeyError\<close>, \<open>TypeError\<close> or \<open>ZeroDivisionError\<close> of the
  calculation is caught and publishes no value; any other exception leaves the
  function, which is the first component of the result.
\<close>

definition async_calculate ::
  "metric \<Rightarrow> string \<Rightarrow> snapshot option \<Rightarrow> snapshot option \<Rightarrow> calculated_sensor
     \<Rightarrow> pyerr option \<times> calculated_sensor"
where
  "async_calculate key today coordinator_data cgi_coordinator s =
     (case coordinator_data of
        None \<Rightarrow> (None, s)
      | Some modbus_data \<Rightarrow>
          (let cgi_data = (case cgi_coordinator of None \<Rightarrow> Map.empty | Some d \<Rightarrow> d);
               (r, s1) =
                 (case key of
                    DailyNetGridImport \<Rightarrow> calculate_daily_net_import today cgi_data s
                  | DailyNetGridExport \<Rightarrow> calculate_daily_net_export today cgi_data s
                  | BatteryEfficiency \<Rightarrow> (calculate_battery_efficiency cgi_data, s)
                  | SelfSufficiencyRate \<Rightarrow>
                      (calculate_self_sufficiency modbus_data cgi_data, s))
           in case r of
                Inr v \<Rightarrow>
                  (None, s1\<lparr>attr_native_value := v, published := published s1 @ [v]\<rparr>)
              | Inl e \<Rightarrow>
                  if e = KeyError \<or> e = TypeError \<or> e = ZeroDivisionError
                  then (None, s1\<lparr>attr_native_value := None,
                                  published := published s1 @ [None]\<rparr>)
                  else (Some e, s1)))"

text \<open>
  The state the host stored for an entity: its state text and its attributes (an
  attribute may hold \<open>None\<close>).
\<close>

record stored_state =
  state :: string
  attributes :: "(string \<times> string option) list"

text \<open>
  \<open>VartaCalculatedSensor.async_added_to_hass\<close>. \<open>float_of\<close> is Python's \<open>float\<close> on a
  string, \<open>None\<close> where it raises \<open>ValueError\<close>. The restored number goes to
  \<open>_attr_native_value\<close>; the timer registration has no effect on the state; the first
  calculation follows at once.
\<close>

definition calculated_async_added_to_hass ::
  "(string \<Rightarrow> real option) \<Rightarrow> metric \<Rightarrow> stored_state option \<Rightarrow> string
     \<Rightarrow> snapshot option \<Rightarrow> snapshot option \<Rightarrow> calculated_sensor
     \<Rightarrow> pyerr option \<times> calculated_sensor"
where
  "calculated_async_added_to_hass float_of key last_state today coordinator_data
       cgi_coordinator s =
     (let s1 =
        (if key = DailyNetGridImport \<or> key = DailyNetGridExport
         then (case last_state of
                 None \<Rightarrow> s
               | Some st \<Rightarrow>
                   (case float_of (state st) of
                      None \<Rightarrow> s
                    | Some v \<Rightarrow>
                        (let s' = s\<lparr>attr_native_value := Some v\<rparr>
                         in if attributes st \<noteq> []
                            then s'\<lparr>last_reset_date :=
                                      (case map_of (attributes st) ''last_reset_date'' of
                                         None \<Rightarrow> None
                                       | Some d \<Rightarrow> d)\<rparr>
                            else s')))
         else s)
      in async_calculate key today coordinator_data cgi_coordinator s1)"

text \<open>A run of timer ticks, each with the date and the two snapshots it finds.\<close>

fun calculate_ticks ::
  "metric \<Rightarrow> (string \<times> snapshot option \<times> snapshot option) list \<Rightarrow> calculated_sensor
     \<Rightarrow> calculated_sensor"
where
  "calculate_ticks key [] s = s"
| "calculate_ticks key ((today, coordinator_data, cgi_coordinator) # ticks) s =
     calculate_ticks key ticks
       (snd (async_calculate key today coordinator_data cgi_coordinator s))"

section \<open>sensor.py: the Riemann sum sensor\<close>

text \<open>
  The integration state of \<open>VartaRiemannSensor\<close>. Times are UTC seconds;
  \<open>log_warnings\<close> counts the calls of \<open>LOGGER.warning\<close>.
\<close>

record riemann_sensor = sensor_entity +
  total_energy :: real
  last_power :: "real option"
  last_update :: "real option"
  log_warnings :: nat

definition riemann_sensor_init :: riemann_sensor where
  "riemann_sensor_init =
     \<lparr>attr_native_value = None, published = [],
      total_energy = 0, last_power = None, last_update = None, log_warnings = 0\<rparr>"

text \<open>\<open>float(v)\<close>: a number as it is, a string through \<open>float_of\<close>.\<close>

definition py_float :: "(string \<Rightarrow> real option) \<Rightarrow> pyval \<Rightarrow> pyerr + real" where
  "py_float float_of v =
     (case v of
        Num x \<Rightarrow> Inr x
      | Str t \<Rightarrow> (case float_of t of None \<Rightarrow> Inl ValueError | Some x \<Rightarrow> Inr x))"

text \<open>The property \<open>native_value\<close>, which is what the host reads on a write.\<close>

definition native_value :: "riemann_sensor \<Rightarrow> real option" where
  "native_value s = Some (if total_energy s \<noteq> 0 then py_round (total_energy s) 6 else 0)"

text \<open>
  \<open>_async_integrate\<close>: \<open>source_key\<close> is the source field of the sensor's description,
  \<open>coordinator_data\<close> the Modbus snapshot, \<open>utcnow\<close> the clock reading the function
  takes itself (its argument \<open>now\<close> is not read). The first component of the result is
  the exception that leaves the function, if any.
\<close>

definition async_integrate ::
  "(string \<Rightarrow> real option) \<Rightarrow> string option \<Rightarrow> snapshot option \<Rightarrow> real \<Rightarrow> riemann_sensor
     \<Rightarrow> pyerr option \<times> riemann_sensor"
where
  "async_integrate float_of source_key coordinator_data utcnow s =
     (case coordinator_data of
        None \<Rightarrow> (None, s)
      | Some data \<Rightarrow>
          (case source_key of
             None \<Rightarrow> (None, s)
           | Some k \<Rightarrow>
               (case data k of
                  None \<Rightarrow> (None, s)
                | Some v \<Rightarrow>
                    (case py_float float_of v of
                       Inl e \<Rightarrow> (Some e, s)
                     | Inr x \<Rightarrow>
                         (let current_power = \<bar>x\<bar>;
                              current_time = utcnow;
                              s1 = (case (last_power s, last_update s) of
                                      (Some lp, Some lu) \<Rightarrow>
                                        (let time_delta = (current_time - lu) / 3600
                                         in if 0 < time_delta \<and> time_delta < 1
                                            then (let avg_power = (current_power + lp) / 2;
                                                      energy_increment =
                                                        (avg_power * time_delta) / 1000
                                                  in s\<lparr>total_energy :=
                                                         total_energy s + energy_increment\<rparr>)
                                            else s)
                                    | _ \<Rightarrow> s);
                              s2 = s1\<lparr>last_power := Some current_power,
                                      last_update := Some current_time\<rparr>;
                              s3 = s2\<lparr>attr_native_value :=
                                        Some (py_round (total_energy s2) 6)\<rparr>
                          in (None, s3\<lparr>published := published s3 @ [native_value s3]\<rparr>))))))"

text \<open>
  The restore step of \<open>VartaRiemannSensor.async_added_to_hass\<close>: the stored state text
  is parsed; a \<open>ValueError\<close> is caught, sets the total to zero and logs a warning.
\<close>

definition riemann_restore ::
  "(string \<Rightarrow> real option) \<Rightarrow> stored_state option \<Rightarrow> riemann_sensor \<Rightarrow> riemann_sensor"
where
  "riemann_restore float_of last_state s =
     (case last_state of
        None \<Rightarrow> s
      | Some st \<Rightarrow>
          (case float_of (state st) of
             Some v \<Rightarrow> s\<lparr>total_energy := v\<rparr>
           | None \<Rightarrow> s\<lparr>total_energy := 0, log_warnings := Suc (log_warnings s)\<rparr>))"

text \<open>
  \<open>VartaRiemannSensor.async_added_to_hass\<close>: restore, register the timer (no effect on
  the state), then the initial integration.
\<close>

definition riemann_async_added_to_hass ::
  "(string \<Rightarrow> real option) \<Rightarrow> string option \<Rightarrow> stored_state option \<Rightarrow> snapshot option \<Rightarrow> real
     \<Rightarrow> riemann_sensor \<Rightarrow> pyerr option \<times> riemann_sensor"
where
  "riemann_async_added_to_hass float_of source_key last_state coordinator_data utcnow s =
     async_integrate float_of source_key coordinator_data utcnow
       (riemann_restore float_of last_state s)"

text \<open>
  The states a run of timer ticks goes through, the starting state first. Each tick
  finds a snapshot and a clock reading; a tick that raises leaves the state as it was.
\<close>

fun integrate_trace ::
  "(string \<Rightarrow> real option) \<Rightarrow> string option \<Rightarrow> (snapshot option \<times> real) list \<Rightarrow> riemann_sensor
     \<Rightarrow> riemann_sensor list"
where
  "integrate_trace float_of source_key [] s = [s]"
| "integrate_trace float_of source_key ((coordinator_data, utcnow) # ticks) s =
     s # integrate_trace float_of source_key ticks
           (snd (async_integrate float_of source_key coordinator_data utcnow s))"

text \<open>
  Ticks of one calendar day on which the CGI snapshot holds the given counter values,
  one after the other, in the given field.
\<close>

definition same_day_ticks ::
  "string \<Rightarrow> string \<Rightarrow> real list \<Rightarrow> (string \<times> snapshot option \<times> snapshot option) list"
where
  "same_day_ticks today field counters =
     map (\<lambda>c. (today, Some Map.empty, Some (Map.empty(field \<mapsto> Num c)))) counters"

text \<open>
  The invariant of the integration state: the stored previous sample, when there is
  one, is an absolute value. \<open>__init__\<close> stores none and \<open>_async_integrate\<close> stores
  \<open>abs(float(current_power))\<close> only.
\<close>

definition last_power_nonneg :: "riemann_sensor \<Rightarrow> bool" where
  "last_power_nonneg s = (case last_power s of None \<Rightarrow> True | Some p \<Rightarrow> 0 \<le> p)"

section \<open>__init__.py: the flattener\<close>

text \<open>
  The objects the device library returns: \<open>None\<close>, a scalar (of a type left open), a
  list, a dataclass instance with its fields in declaration order, or a dictionary with
  its items in insertion order. Only a dataclass instance has
  \<open>__dataclass_fields__\<close>.
\<close>

datatype 'a pyobj =
    PNone
  | Scalar 'a
  | PList "'a pyobj list"
  | Dataclass "(string \<times> 'a pyobj) list"
  | PDict "(string \<times> 'a pyobj) list"

text \<open>
  A Python dictionary with string keys, as the list of its items in insertion order.
  \<open>d[k] = v\<close> is \<open>AList.update k v d\<close>: an existing key keeps its place, a new one goes
  to the end. \<open>d.update(other)\<close> stores the items of \<open>other\<close> one after the other.
\<close>

type_synonym 'a pydict = "(string \<times> 'a pyobj) list"

definition dict_update :: "'a pydict \<Rightarrow> 'a pydict \<Rightarrow> 'a pydict" where
  "dict_update d other = fold (\<lambda>(k, v). AList.update k v) other d"

text \<open>
  \<open>flatten_dataclass\<close>. The two loops of the source, over the fields of a dataclass and
  over the items of a dictionary, have the same body, which is \<open>flatten_fields\<close> with
  the dictionary built so far. \<open>str_of\<close> is Python's \<open>str\<close>. The argument \<open>prefix\<close> is
  never read.
\<close>

fun flatten_dataclass :: "('a pyobj \<Rightarrow> string) \<Rightarrow> 'a pyobj \<Rightarrow> string \<Rightarrow> 'a pydict"
  and flatten_fields :: "('a pyobj \<Rightarrow> string) \<Rightarrow> 'a pydict \<Rightarrow> 'a pydict \<Rightarrow> 'a pydict"
where
  "flatten_dataclass str_of (Dataclass fs) prefix = flatten_fields str_of fs []"
| "flatten_dataclass str_of (PDict items) prefix = flatten_fields str_of items []"
| "flatten_dataclass str_of PNone prefix = []"
| "flatten_dataclass str_of (Scalar x) prefix = [(str_of (Scalar x), Scalar x)]"
| "flatten_dataclass str_of (PList xs) prefix = [(str_of (PList xs), PList xs)]"
| "flatten_fields str_of [] flat_dict = flat_dict"
| "flatten_fields str_of ((name, value) # rest) flat_dict =
     flatten_fields str_of rest
       (case value of
          Dataclass _ \<Rightarrow> dict_update flat_dict (flatten_dataclass str_of value [])
        | PNone \<Rightarrow> flat_dict
        | _ \<Rightarrow> AList.update name value flat_dict)"

text \<open>
  What the specification asks of the flattener, stated on its own: the leaf fields of a
  record, in the order of a depth-first walk, each under its own field name; the fields
  of a nested record take the place of the field that holds it, and a field holding
  \<open>None\<close> is left out.
\<close>

fun leaf_fields :: "'a pydict \<Rightarrow> 'a pydict" where
  "leaf_fields [] = []"
| "leaf_fields ((name, Dataclass fs) # rest) = leaf_fields fs @ leaf_fields rest"
| "leaf_fields ((name, PNone) # rest) = leaf_fields rest"
| "leaf_fields ((name, value) # rest) = (name, value) # leaf_fields rest"

text \<open>A leaf value: neither \<open>None\<close> nor a record.\<close>

fun is_leaf :: "'a pyobj \<Rightarrow> bool" where
  "is_leaf PNone = False"
| "is_leaf (Dataclass _) = False"
| "is_leaf _ = True"

section \<open>__init__.py: the fetch functions\<close>

text \<open>
  The device library, as the fetch functions see it. A fetch attempt builds a client
  (\<open>vartastorage.VartaStorage(...)\<close>) and calls its getters; a getter may raise.
  \<open>connects\<close> counts the clients built, \<open>requests\<close> the getter calls made, and
  \<open>responses n\<close> is the outcome of getter call number \<open>n\<close>: the exception text or the
  reply.
\<close>

type_synonym exn = string

record 'a device =
  connects :: nat
  requests :: nat
  responses :: "nat \<Rightarrow> exn + 'a pyobj"

definition VartaStorage :: "'a device \<Rightarrow> 'a device" where
  "VartaStorage dev = dev\<lparr>connects := Suc (connects dev)\<rparr>"

definition device_call :: "'a device \<Rightarrow> (exn + 'a pyobj) \<times> 'a device" where
  "device_call dev = (responses dev (requests dev), dev\<lparr>requests := Suc (requests dev)\<rparr>)"

text \<open>
  How a fetch can fail: \<open>UpdateFailed\<close> with its text, or the \<open>TimeoutError\<close> that
  \<open>async_timeout.timeout\<close> raises when its limit elapses.
\<close>

datatype fetch_error = UpdateFailed string | TimeoutError

text \<open>
  One attempt of the Modbus fetch: the body of either \<open>try\<close> block of \<open>sync_update\<close>.
  Building the client is taken to succeed; the getter may raise.
\<close>

definition modbus_attempt :: "'a device \<Rightarrow> (exn + 'a pyobj) \<times> 'a device" where
  "modbus_attempt dev = device_call (VartaStorage dev)"

text \<open>
  The inner function \<open>sync_update\<close> of \<open>async_update_modbus\<close>: the second attempt runs
  in the handler of the first, and the handler of the second raises \<open>UpdateFailed\<close>.
  The reply is flattened outside the \<open>try\<close> blocks.
\<close>

definition sync_update_modbus ::
  "('a pyobj \<Rightarrow> string) \<Rightarrow> 'a device \<Rightarrow> (fetch_error + 'a pydict) \<times> 'a device"
where
  "sync_update_modbus str_of dev =
     (case modbus_attempt dev of
        (Inr r, dev1) \<Rightarrow> (Inr (flatten_dataclass str_of r []), dev1)
      | (Inl _, dev1) \<Rightarrow>
          (case modbus_attempt dev1 of
             (Inr r, dev2) \<Rightarrow> (Inr (flatten_dataclass str_of r []), dev2)
           | (Inl e, dev2) \<Rightarrow>
               (Inl (UpdateFailed ''Can not retrieve Modbus Data from the VARTA Device.''),
                dev2)))"

text \<open>
  \<open>async_update_modbus\<close>: \<open>sync_update\<close> runs as an executor job inside
  \<open>async_timeout.timeout(10)\<close>. \<open>timed_out\<close> tells whether the 10 seconds elapse before
  the job returns: then the function raises \<open>TimeoutError\<close>, which its only handler,
  for \<open>ValueError\<close>, does not catch, and the outcome of the job is lost; the job itself
  is not interrupted, so its calls are made all the same. Otherwise the outcome of the
  job is the outcome of the function; the job raises \<open>UpdateFailed\<close> only, so the
  handler for \<open>ValueError\<close> is not entered.
\<close>

definition async_update_modbus ::
  "('a pyobj \<Rightarrow> string) \<Rightarrow> bool \<Rightarrow> 'a device \<Rightarrow> (fetch_error + 'a pydict) \<times> 'a device"
where
  "async_update_modbus str_of timed_out dev =
     (case sync_update_modbus str_of dev of
        (outcome, dev') \<Rightarrow>
          if timed_out then (Inl TimeoutError, dev') else (outcome, dev'))"

text \<open>
  Attribute access: \<open>None\<close> stands for \<open>AttributeError\<close>. Only a dataclass instance has
  named attributes here.
\<close>

definition py_getattr :: "'a pyobj \<Rightarrow> string \<Rightarrow> 'a pyobj option" where
  "py_getattr obj name = (case obj of Dataclass fs \<Rightarrow> map_of fs name | _ \<Rightarrow> None)"

definition py_setattr :: "'a pyobj \<Rightarrow> string \<Rightarrow> 'a pyobj \<Rightarrow> 'a pyobj" where
  "py_setattr obj name v =
     (case obj of Dataclass fs \<Rightarrow> Dataclass (AList.update name v fs) | _ \<Rightarrow> obj)"

text \<open>
  One attempt of the CGI fetch: the four getters in order, the first failure ending
  the attempt; then \<open>total_charge_cycles\<close> of the energy data is read (a missing
  attribute raises inside the \<open>try\<close> block as well) and, when it is a non-empty list,
  replaced by its first element. The result is the EMS data and the container of the
  four replies.
\<close>

definition cgi_attempt :: "'a device \<Rightarrow> (exn + 'a pyobj \<times> 'a pyobj) \<times> 'a device" where
  "cgi_attempt dev =
     (case device_call (VartaStorage dev) of
        (Inl e, d1) \<Rightarrow> (Inl e, d1)
      | (Inr ems_data, d1) \<Rightarrow>
     (case device_call d1 of
        (Inl e, d2) \<Rightarrow> (Inl e, d2)
      | (Inr energy_data, d2) \<Rightarrow>
     (case device_call d2 of
        (Inl e, d3) \<Rightarrow> (Inl e, d3)
      | (Inr info_data, d3) \<Rightarrow>
     (case device_call d3 of
        (Inl e, d4) \<Rightarrow> (Inl e, d4)
      | (Inr service_data, d4) \<Rightarrow>
     (case py_getattr energy_data ''total_charge_cycles'' of
        None \<Rightarrow> (Inl ''AttributeError'', d4)
      | Some cycles \<Rightarrow>
          (let energy_data' =
                 (case cycles of
                    PList (x # xs) \<Rightarrow> py_setattr energy_data ''total_charge_cycles'' x
                  | _ \<Rightarrow> energy_data)
           in (Inr (ems_data,
                    Dataclass [(''ems_data'', ems_data), (''energy_data'', energy_data'),
                               (''info_data'', info_data), (''service_data'', service_data)]),
               d4)))))))"

text \<open>
  The three optional merges after the flattening:
  \<open>if hasattr(ems_data, name) and ems_data.name is not None\<close>.
\<close>

definition merge_nested ::
  "('a pyobj \<Rightarrow> string) \<Rightarrow> 'a pyobj \<Rightarrow> string \<Rightarrow> 'a pydict \<Rightarrow> 'a pydict"
where
  "merge_nested str_of ems_data name flat_data =
     (case py_getattr ems_data name of
        None \<Rightarrow> flat_data
      | Some PNone \<Rightarrow> flat_data
      | Some v \<Rightarrow> dict_update flat_data (flatten_dataclass str_of v []))"

definition cgi_flat_data :: "('a pyobj \<Rightarrow> string) \<Rightarrow> 'a pyobj \<times> 'a pyobj \<Rightarrow> 'a pydict" where
  "cgi_flat_data str_of fetched =
     (case fetched of
        (ems_data, result) \<Rightarrow>
          merge_nested str_of ems_data ''ens_data''
            (merge_nested str_of ems_data ''emeter_data''
               (merge_nested str_of ems_data ''wr_data''
                  (flatten_dataclass str_of result []))))"

text \<open>
  The inner function \<open>sync_update\<close> of \<open>async_update_cgi\<close>, built like the Modbus one.
\<close>

definition sync_update_cgi ::
  "('a pyobj \<Rightarrow> string) \<Rightarrow> 'a device \<Rightarrow> (fetch_error + 'a pydict) \<times> 'a device"
where
  "sync_update_cgi str_of dev =
     (case cgi_attempt dev of
        (Inr fetched, dev1) \<Rightarrow> (Inr (cgi_flat_data str_of fetched), dev1)
      | (Inl _, dev1) \<Rightarrow>
          (case cgi_attempt dev1 of
             (Inr fetched, dev2) \<Rightarrow> (Inr (cgi_flat_data str_of fetched), dev2)
           | (Inl e, dev2) \<Rightarrow>
               (Inl (UpdateFailed ''Can not retrieve CGI Data from the VARTA Device.''),
                dev2)))"

text \<open>
  \<open>async_update_cgi\<close>: the same wrapper with \<open>async_timeout.timeout(15)\<close>;
  \<open>timed_out\<close> tells whether the 15 seconds elapse before the job returns.
\<close>

definition async_update_cgi ::
  "('a pyobj \<Rightarrow> string) \<Rightarrow> bool \<Rightarrow> 'a device \<Rightarrow> (fetch_error + 'a pydict) \<times> 'a device"
where
  "async_update_cgi str_of timed_out dev =
     (case sync_update_cgi str_of dev of
        (outcome, dev') \<Rightarrow>
          if timed_out then (Inl TimeoutError, dev') else (outcome, dev'))"

text \<open>
  Modelled from the spec: the snapshot cache of the polling coordinator, which is the
  host platform's \<open>DataUpdateCoordinator\<close> and not part of the source. Section 4.2: on
  success the cached snapshot is replaced by the flattened reply; a failed poll, by a
  device failure or by the timeout, leaves the last good snapshot in place.
\<close>

record 'a polling_coordinator =
  cached_snapshot :: "'a pydict option"

definition coordinator_refresh ::
  "fetch_error + 'a pydict \<Rightarrow> 'a polling_coordinator \<Rightarrow> 'a polling_coordinator"
where
  "coordinator_refresh outcome c =
     (case outcome of
        Inr flat \<Rightarrow> c\<lparr>cached_snapshot := Some flat\<rparr>
      | Inl _ \<Rightarrow> c)"

section \<open>Properties of the code texts\<close>

text \<open>
  C10: the state-code and error-code text lookups return a string for every input:
  \<open>None\<close> gives \<open>Unknown\<close>, a code of the table gives the table's text, and every
  other code gives the fallback text that embeds the decimal code.
\<close>

theorem code_text_lookup_total:
  "get_state_text None = ''Unknown''
   \<and> get_error_text None = ''Unknown''
   \<and> (\<forall>c t. map_of VARTA_STATE_MAP c = Some t \<longrightarrow> get_state_text (Some c) = t)
   \<and> (\<forall>c. map_of VARTA_STATE_MAP c = None \<longrightarrow>
          get_state_text (Some c) = ''Unknown State ('' @ str_int c @ '')'')
   \<and> (\<forall>c t. map_of VARTA_ERROR_MAP c = Some t \<longrightarrow> get_error_text (Some c) = t)
   \<and> (\<forall>c. map_of VARTA_ERROR_MAP c = None \<longrightarrow>
          get_error_text (Some c) = ''Unknown Error ('' @ str_int c @ '')'')"
  by (auto simp: get_state_text_def get_error_text_def dict_get_default_def
      VARTA_ERROR_MAP_def)

theorem code_text_lookup_total_witness:
  "map_of VARTA_STATE_MAP 3 = Some ''Discharge (Entladen)''
   \<and> get_state_text (Some 3) = ''Discharge (Entladen)''
   \<and> map_of VARTA_STATE_MAP 42 = None
   \<and> get_state_text (Some 42) = ''Unknown State (42)''
   \<and> map_of VARTA_ERROR_MAP 255 = Some ''Unknown Error (Unbekannter Fehler)''
   \<and> get_error_text (Some 255) = ''Unknown Error (Unbekannter Fehler)''
   \<and> map_of VARTA_ERROR_MAP (- 7) = None
   \<and> get_error_text (Some (- 7)) = ''Unknown Error (-7)''"
proof -
  have s3: "map_of VARTA_STATE_MAP 3 = Some ''Discharge (Entladen)''"
    by (simp add: VARTA_STATE_MAP_def)
  have s42: "map_of VARTA_STATE_MAP 42 = None"
    by (simp add: VARTA_STATE_MAP_def)
  have e255: "map_of VARTA_ERROR_MAP 255 = Some ''Unknown Error (Unbekannter Fehler)''"
    by (simp add: VARTA_ERROR_MAP_def)
  have e7: "map_of VARTA_ERROR_MAP (- 7) = None"
    by (simp add: VARTA_ERROR_MAP_def)
  have d42: "str_int 42 = ''42''"
    by (simp add: str_int_def str_nat.simps [of 42] str_nat.simps [of 4])
  have d7: "str_int (- 7) = ''-7''"
    by (simp add: str_int_def str_nat.simps [of 7])
  from code_text_lookup_total s3 s42 e255 e7 d42 d7 show ?thesis
    by simp
qed

section \<open>Properties of the derived metrics\<close>

lemma round_half_even_of_int: "round_half_even (of_int k) = k"
  by (simp add: round_half_even_def)

lemma py_round_of_int: "py_round (of_int i) n = of_int i"
proof -
  have "(of_int i :: real) * 10 ^ n = of_int (i * 10 ^ n)"
    by simp
  then have "round_half_even (of_int i * 10 ^ n) = i * 10 ^ n"
    by (simp only: round_half_even_of_int)
  then show ?thesis
    by (simp add: py_round_def)
qed

lemma py_round_numeral [simp]: "py_round (numeral k) n = numeral k"
  using py_round_of_int [of "numeral k" n] by simp

lemma py_round_zero [simp]: "py_round 0 n = 0"
  using py_round_of_int [of 0 n] by simp

lemma import_step:
  assumes "last_reset_date s = Some today" "last_import_total s = Some (Num p)"
    "cgi ''total_grid_ac_dc'' = Some (Num c)"
  shows "calculate_daily_net_import today cgi s =
        (Inr (Some (py_round (daily_import s + max 0 (c - p)) 3)),
         s\<lparr>daily_import := daily_import s + max 0 (c - p),
           last_import_total := Some (Num c)\<rparr>)"
  using assms by (simp add: calculate_daily_net_import_def Let_def max_def)

lemma export_step:
  assumes "last_reset_date s = Some today" "last_export_total s = Some (Num p)"
    "cgi ''total_grid_dc_ac'' = Some (Num c)"
  shows "calculate_daily_net_export today cgi s =
        (Inr (Some (py_round (daily_export s + max 0 (c - p)) 3)),
         s\<lparr>daily_export := daily_export s + max 0 (c - p),
           last_export_total := Some (Num c)\<rparr>)"
  using assms by (simp add: calculate_daily_net_export_def Let_def max_def)

lemma import_example:
  "calculate_ticks DailyNetGridImport
     (same_day_ticks ''2024-05-01'' ''total_grid_ac_dc'' [10, 15, 12, 20])
     calculated_sensor_init
   = calculated_sensor_init\<lparr>attr_native_value := Some 13,
        published := [Some 0, Some 5, Some 5, Some 13],
        daily_import := 13, last_import_total := Some (Num 20),
        last_reset_date := Some ''2024-05-01''\<rparr>"
  by (simp add: same_day_ticks_def async_calculate_def calculate_daily_net_import_def
      calculated_sensor_init_def Let_def)

lemma export_example:
  "calculate_ticks DailyNetGridExport
     (same_day_ticks ''2024-05-01'' ''total_grid_dc_ac'' [10, 15, 12, 20])
     calculated_sensor_init
   = calculated_sensor_init\<lparr>attr_native_value := Some 13,
        published := [Some 0, Some 5, Some 5, Some 13],
        daily_export := 13, last_export_total := Some (Num 20),
        last_reset_date := Some ''2024-05-01''\<rparr>"
  by (simp add: same_day_ticks_def async_calculate_def calculate_daily_net_export_def
      calculated_sensor_init_def Let_def)

text \<open>
  C4: within one calendar day a tick adds the positive part of the counter's delta to
  the daily accumulator, so a decrease adds exactly 0; this holds for the import and
  for the export accumulator. Fed the counters 10, 15, 12, 20 from the initial state
  (no previous counter), the accumulator ends at 5 + 0 + 8 = 13 and the published
  values are 0, 5, 5, 13.
\<close>

theorem daily_accumulator_positive_deltas:
  "(\<forall>s today cgi p c.
      last_reset_date s = Some today \<and> last_import_total s = Some (Num p)
        \<and> cgi ''total_grid_ac_dc'' = Some (Num c) \<longrightarrow>
      calculate_daily_net_import today cgi s =
        (Inr (Some (py_round (daily_import s + max 0 (c - p)) 3)),
         s\<lparr>daily_import := daily_import s + max 0 (c - p),
           last_import_total := Some (Num c)\<rparr>))
   \<and> (\<forall>s today cgi p c.
      last_reset_date s = Some today \<and> last_export_total s = Some (Num p)
        \<and> cgi ''total_grid_dc_ac'' = Some (Num c) \<longrightarrow>
      calculate_daily_net_export today cgi s =
        (Inr (Some (py_round (daily_export s + max 0 (c - p)) 3)),
         s\<lparr>daily_export := daily_export s + max 0 (c - p),
           last_export_total := Some (Num c)\<rparr>))
   \<and> daily_import (calculate_ticks DailyNetGridImport
        (same_day_ticks ''2024-05-01'' ''total_grid_ac_dc'' [10, 15, 12, 20])
        calculated_sensor_init) = 13
   \<and> published (calculate_ticks DailyNetGridImport
        (same_day_ticks ''2024-05-01'' ''total_grid_ac_dc'' [10, 15, 12, 20])
        calculated_sensor_init) = [Some 0, Some 5, Some 5, Some 13]
   \<and> daily_export (calculate_ticks DailyNetGridExport
        (same_day_ticks ''2024-05-01'' ''total_grid_dc_ac'' [10, 15, 12, 20])
        calculated_sensor_init) = 13
   \<and> published (calculate_ticks DailyNetGridExport
        (same_day_ticks ''2024-05-01'' ''total_grid_dc_ac'' [10, 15, 12, 20])
        calculated_sensor_init) = [Some 0, Some 5, Some 5, Some 13]"
  using import_step export_step by (simp add: import_example export_example)

theorem daily_accumulator_positive_deltas_witness:
  "last_reset_date (calculated_sensor_init\<lparr>daily_import := 5,
       last_import_total := Some (Num 15), last_reset_date := Some ''2024-05-01''\<rparr>)
     = Some ''2024-05-01''
   \<and> calculate_daily_net_import ''2024-05-01'' (Map.empty(''total_grid_ac_dc'' \<mapsto> Num 12))
       (calculated_sensor_init\<lparr>daily_import := 5, last_import_total := Some (Num 15),
          last_reset_date := Some ''2024-05-01''\<rparr>)
     = (Inr (Some 5),
        calculated_sensor_init\<lparr>daily_import := 5, last_import_total := Some (Num 12),
          last_reset_date := Some ''2024-05-01''\<rparr>)
   \<and> calculate_daily_net_export ''2024-05-01'' (Map.empty(''total_grid_dc_ac'' \<mapsto> Num 20))
       (calculated_sensor_init\<lparr>daily_export := 5, last_export_total := Some (Num 12),
          last_reset_date := Some ''2024-05-01''\<rparr>)
     = (Inr (Some 13),
        calculated_sensor_init\<lparr>daily_export := 13, last_export_total := Some (Num 20),
          last_reset_date := Some ''2024-05-01''\<rparr>)"
proof -
  let ?s = "calculated_sensor_init\<lparr>daily_import := 5,
    last_import_total := Some (Num 15), last_reset_date := Some ''2024-05-01''\<rparr>"
  let ?t = "calculated_sensor_init\<lparr>daily_export := 5,
    last_export_total := Some (Num 12), last_reset_date := Some ''2024-05-01''\<rparr>"
  let ?ci = "Map.empty(''total_grid_ac_dc'' \<mapsto> Num 12) :: snapshot"
  let ?ce = "Map.empty(''total_grid_dc_ac'' \<mapsto> Num 20) :: snapshot"
  from daily_accumulator_positive_deltas
  have a: "last_reset_date ?s = Some ''2024-05-01'' \<and> last_import_total ?s = Some (Num 15)
        \<and> ?ci ''total_grid_ac_dc'' = Some (Num 12) \<longrightarrow>
      calculate_daily_net_import ''2024-05-01'' ?ci ?s =
        (Inr (Some (py_round (daily_import ?s + max 0 (12 - 15)) 3)),
         ?s\<lparr>daily_import := daily_import ?s + max 0 (12 - 15),
           last_import_total := Some (Num 12)\<rparr>)"
    by blast
  from daily_accumulator_positive_deltas
  have b: "last_reset_date ?t = Some ''2024-05-01'' \<and> last_export_total ?t = Some (Num 12)
        \<and> ?ce ''total_grid_dc_ac'' = Some (Num 20) \<longrightarrow>
      calculate_daily_net_export ''2024-05-01'' ?ce ?t =
        (Inr (Some (py_round (daily_export ?t + max 0 (20 - 12)) 3)),
         ?t\<lparr>daily_export := daily_export ?t + max 0 (20 - 12),
           last_export_total := Some (Num 20)\<rparr>)"
    by blast
  from a b show ?thesis
    by (simp add: calculated_sensor_init_def)
qed

text \<open>
  C5: the battery efficiency is unavailable (no value, no exception) whenever the
  charged counter is absent or 0, it never raises a division error, and for a nonzero
  charged counter and a present discharged counter it is 100 * (discharged / charged)
  capped at 100; charged 10 and discharged 12 give exactly 100.
\<close>

theorem battery_efficiency_unavailable_or_capped:
  "(cgi ''total_inverter_ac_dc'' = None \<or> cgi ''total_inverter_ac_dc'' = Some (Num 0) \<longrightarrow>
      calculate_battery_efficiency cgi = Inr None
      \<and> async_calculate BatteryEfficiency today (Some modbus) (Some cgi) s
          = (None, s\<lparr>attr_native_value := None, published := published s @ [None]\<rparr>))
   \<and> calculate_battery_efficiency cgi \<noteq> Inl ZeroDivisionError
   \<and> (\<forall>c d. cgi ''total_inverter_ac_dc'' = Some (Num c) \<and> c \<noteq> 0
         \<and> cgi ''total_inverter_dc_ac'' = Some (Num d) \<longrightarrow>
       calculate_battery_efficiency cgi = Inr (Some (min (100 * (d / c)) 100)))
   \<and> calculate_battery_efficiency
        (Map.empty(''total_inverter_ac_dc'' \<mapsto> Num 10, ''total_inverter_dc_ac'' \<mapsto> Num 12))
       = Inr (Some 100)"
proof (intro conjI impI allI)
  assume "cgi ''total_inverter_ac_dc'' = None \<or> cgi ''total_inverter_ac_dc'' = Some (Num 0)"
  then show e: "calculate_battery_efficiency cgi = Inr None"
    by (auto simp: calculate_battery_efficiency_def split: option.splits)
  then show "async_calculate BatteryEfficiency today (Some modbus) (Some cgi) s
          = (None, s\<lparr>attr_native_value := None, published := published s @ [None]\<rparr>)"
    by (simp add: async_calculate_def)
next
  show "calculate_battery_efficiency cgi \<noteq> Inl ZeroDivisionError"
  proof (cases "cgi ''total_inverter_ac_dc''")
    case None
    then show ?thesis
      by (simp add: calculate_battery_efficiency_def)
  next
    case (Some charged)
    show ?thesis
    proof (cases "cgi ''total_inverter_dc_ac''")
      case None
      with Some show ?thesis
        by (simp add: calculate_battery_efficiency_def)
    next
      case d: (Some discharged)
      with Some show ?thesis
        by (cases charged; cases discharged) (simp_all add: calculate_battery_efficiency_def)
    qed
  qed
next
  fix c d
  assume "cgi ''total_inverter_ac_dc'' = Some (Num c) \<and> c \<noteq> 0
         \<and> cgi ''total_inverter_dc_ac'' = Some (Num d)"
  then show "calculate_battery_efficiency cgi = Inr (Some (min (100 * (d / c)) 100))"
    by (simp add: calculate_battery_efficiency_def mult.commute)
next
  show "calculate_battery_efficiency
        (Map.empty(''total_inverter_ac_dc'' \<mapsto> Num 10, ''total_inverter_dc_ac'' \<mapsto> Num 12))
       = Inr (Some 100)"
    by (simp add: calculate_battery_efficiency_def)
qed

theorem battery_efficiency_unavailable_or_capped_witness:
  "(Map.empty(''total_inverter_ac_dc'' \<mapsto> Num 0, ''total_inverter_dc_ac'' \<mapsto> Num 7))
       ''total_inverter_ac_dc'' = Some (Num 0)
   \<and> calculate_battery_efficiency
        (Map.empty(''total_inverter_ac_dc'' \<mapsto> Num 0, ''total_inverter_dc_ac'' \<mapsto> Num 7))
       = Inr None
   \<and> snd (async_calculate BatteryEfficiency ''2024-05-01'' (Some Map.empty)
        (Some (Map.empty(''total_inverter_ac_dc'' \<mapsto> Num 0, ''total_inverter_dc_ac'' \<mapsto> Num 7)))
        calculated_sensor_init) = calculated_sensor_init\<lparr>published := [None]\<rparr>
   \<and> calculate_battery_efficiency
        (Map.empty(''total_inverter_ac_dc'' \<mapsto> Num 10, ''total_inverter_dc_ac'' \<mapsto> Num 5))
       = Inr (Some 50)"
proof -
  let ?z = "Map.empty(''total_inverter_ac_dc'' \<mapsto> Num 0, ''total_inverter_dc_ac'' \<mapsto> Num 7)
    :: snapshot"
  let ?h = "Map.empty(''total_inverter_ac_dc'' \<mapsto> Num 10, ''total_inverter_dc_ac'' \<mapsto> Num 5)
    :: snapshot"
  have z: "?z ''total_inverter_ac_dc'' = Some (Num 0)"
    by simp
  have h: "?h ''total_inverter_ac_dc'' = Some (Num 10) \<and> (10::real) \<noteq> 0
      \<and> ?h ''total_inverter_dc_ac'' = Some (Num 5)"
    by simp
  from battery_efficiency_unavailable_or_capped
    [where cgi = ?z and today = "''2024-05-01''" and modbus = Map.empty
       and s = calculated_sensor_init] z
  have 1: "calculate_battery_efficiency ?z = Inr None
    \<and> async_calculate BatteryEfficiency ''2024-05-01'' (Some Map.empty) (Some ?z)
        calculated_sensor_init
      = (None, calculated_sensor_init\<lparr>attr_native_value := None,
           published := published calculated_sensor_init @ [None]\<rparr>)"
    by blast
  from battery_efficiency_unavailable_or_capped [where cgi = ?h] h
  have 2: "calculate_battery_efficiency ?h = Inr (Some (min (100 * (5 / 10)) 100))"
    by blast
  from z 1 2 show ?thesis
    by (simp add: calculated_sensor_init_def)
qed

text \<open>
  C6: with grid import g and battery discharge d read from the CGI snapshot (a missing
  field counts as 0), the self-sufficiency rate is exactly 100 when g + d = 0, and
  otherwise 100 * d / (g + d) clamped to the interval from 0 to 100; in every case the
  result lies in that interval. Both counters 0, or both missing, give exactly 100.
\<close>

theorem self_sufficiency_clamped:
  assumes "snapshot_get_default cgi ''total_grid_ac_dc'' (Num 0) = Some (Num g)"
    and "snapshot_get_default cgi ''total_inverter_dc_ac'' (Num 0) = Some (Num d)"
  shows "calculate_self_sufficiency modbus cgi =
           Inr (Some (if g + d = 0 then 100 else min (max (100 * d / (g + d)) 0) 100))
         \<and> (\<exists>r. calculate_self_sufficiency modbus cgi = Inr (Some r) \<and> 0 \<le> r \<and> r \<le> 100)
         \<and> calculate_self_sufficiency modbus
             (Map.empty(''total_grid_ac_dc'' \<mapsto> Num 0, ''total_inverter_dc_ac'' \<mapsto> Num 0))
            = Inr (Some 100)
         \<and> calculate_self_sufficiency modbus Map.empty = Inr (Some 100)"
  using assms
  by (simp add: calculate_self_sufficiency_def snapshot_get_default_def mult.commute)

theorem self_sufficiency_clamped_witness:
  "snapshot_get_default
      (Map.empty(''total_grid_ac_dc'' \<mapsto> Num 30, ''total_inverter_dc_ac'' \<mapsto> Num 10))
      ''total_grid_ac_dc'' (Num 0) = Some (Num 30)
   \<and> snapshot_get_default
      (Map.empty(''total_grid_ac_dc'' \<mapsto> Num 30, ''total_inverter_dc_ac'' \<mapsto> Num 10))
      ''total_inverter_dc_ac'' (Num 0) = Some (Num 10)
   \<and> calculate_self_sufficiency Map.empty
      (Map.empty(''total_grid_ac_dc'' \<mapsto> Num 30, ''total_inverter_dc_ac'' \<mapsto> Num 10))
     = Inr (Some 25)"
proof -
  let ?c = "Map.empty(''total_grid_ac_dc'' \<mapsto> Num 30, ''total_inverter_dc_ac'' \<mapsto> Num 10)
    :: snapshot"
  have g: "snapshot_get_default ?c ''total_grid_ac_dc'' (Num 0) = Some (Num 30)"
    by (simp add: snapshot_get_default_def)
  have d: "snapshot_get_default ?c ''total_inverter_dc_ac'' (Num 0) = Some (Num 10)"
    by (simp add: snapshot_get_default_def)
  from self_sufficiency_clamped [OF g d, of Map.empty] g d show ?thesis
    by simp
qed

section \<open>Properties of the daily accumulators across a restart\<close>

text \<open>
  C2: evaluation of the restart path of the daily import accumulator. The stored state
  is 7.5 with the reset date of today; the first tick finds the counter at 100 and the
  next one at 105. The restored 7.5 only reaches \<open>_attr_native_value\<close>, which the first
  calculation overwrites: the published values are 0 and 5, where continuing from the
  stored value would give 7.5 and 12.5.
\<close>

theorem daily_import_restart_from_zero:
  "snd (calculated_async_added_to_hass (\<lambda>t. if t = ''7.5'' then Some 7.5 else None)
         DailyNetGridImport
         (Some \<lparr>state = ''7.5'', attributes = [(''last_reset_date'', Some ''2024-05-01'')]\<rparr>)
         ''2024-05-01'' (Some Map.empty) (Some (Map.empty(''total_grid_ac_dc'' \<mapsto> Num 100)))
         calculated_sensor_init)
   = calculated_sensor_init\<lparr>attr_native_value := Some 0, published := [Some 0],
       last_import_total := Some (Num 100), last_reset_date := Some ''2024-05-01''\<rparr>
   \<and> published (calculate_ticks DailyNetGridImport
        [(''2024-05-01'', Some Map.empty, Some (Map.empty(''total_grid_ac_dc'' \<mapsto> Num 105)))]
        (snd (calculated_async_added_to_hass (\<lambda>t. if t = ''7.5'' then Some 7.5 else None)
         DailyNetGridImport
         (Some \<lparr>state = ''7.5'', attributes = [(''last_reset_date'', Some ''2024-05-01'')]\<rparr>)
         ''2024-05-01'' (Some Map.empty) (Some (Map.empty(''total_grid_ac_dc'' \<mapsto> Num 100)))
         calculated_sensor_init))) = [Some 0, Some 5]"
  by (simp add: calculated_async_added_to_hass_def async_calculate_def
      calculate_daily_net_import_def calculated_sensor_init_def Let_def)

section \<open>Properties of the Riemann sum sensor\<close>

lemma round_half_even_down:
  assumes "of_int f \<le> x" and "x - of_int f < 1 / 2"
  shows "round_half_even x = f"
proof -
  from assms have "\<lfloor>x\<rfloor> = f"
    by (intro floor_unique) simp_all
  with assms show ?thesis
    by (simp add: round_half_even_def)
qed

lemma py_round_down:
  assumes "of_int f \<le> x * 10 ^ n" and "x * 10 ^ n - of_int f < 1 / 2"
  shows "py_round x n = of_int f / 10 ^ n"
  using round_half_even_down [OF assms] by (simp add: py_round_def)

lemma py_round_exact:
  assumes "x * 10 ^ n = of_int m"
  shows "py_round x n = x"
proof -
  from assms have "round_half_even (x * 10 ^ n) = m"
    by (simp only: round_half_even_of_int)
  then have "py_round x n = of_int m / 10 ^ n"
    by (simp add: py_round_def)
  also have "\<dots> = x"
    using assms [symmetric] by simp
  finally show ?thesis .
qed

lemma py_round_five_and_a_bit: "py_round (50000004 / 10000000) 6 = 5"
proof -
  have "py_round (50000004 / 10000000) 6 = of_int 5000000 / 10 ^ 6"
    by (rule py_round_down) simp_all
  then show ?thesis
    by simp
qed

text \<open>
  C1, as stated, fails: two samples of 100 W taken exactly 3600 seconds apart, from the
  initial state, leave the accumulated energy at 0, which is not near 0.1. The elapsed
  time is 1 hour and the guard \<open>time_delta < 1\<close> skips the interval.
\<close>

theorem trapezoid_hour_gap_counterexample:
  "total_energy (snd (async_integrate (\<lambda>t. None) (Some ''charge_power'')
       (Some (Map.empty(''charge_power'' \<mapsto> Num 100))) 3600
       (snd (async_integrate (\<lambda>t. None) (Some ''charge_power'')
          (Some (Map.empty(''charge_power'' \<mapsto> Num 100))) 0 riemann_sensor_init)))) = 0
   \<and> \<not> \<bar>total_energy (snd (async_integrate (\<lambda>t. None) (Some ''charge_power'')
       (Some (Map.empty(''charge_power'' \<mapsto> Num 100))) 3600
       (snd (async_integrate (\<lambda>t. None) (Some ''charge_power'')
          (Some (Map.empty(''charge_power'' \<mapsto> Num 100))) 0 riemann_sensor_init))))
        - 1 / 10\<bar> \<le> 1 / 100"
  by (simp add: async_integrate_def py_float_def Let_def riemann_sensor_init_def)

text \<open>
  C1, amended: two samples of 100 W taken \<open>dt\<close> seconds apart, the first one being the
  first sample of the integrator, add 100 * (dt / 3600) / 1000 kWh when
  0 < dt < 3600, and add nothing when the gap is 3600 seconds or more.
\<close>

theorem trapezoid_constant_power:
  assumes "data k = Some (Num 100)" and "last_power s = None"
  shows "(0 < dt \<and> dt < 3600 \<longrightarrow>
          total_energy (snd (async_integrate f (Some k) (Some data) (t0 + dt)
            (snd (async_integrate f (Some k) (Some data) t0 s))))
          = total_energy s + 100 * (dt / 3600) / 1000)
       \<and> (3600 \<le> dt \<longrightarrow>
          total_energy (snd (async_integrate f (Some k) (Some data) (t0 + dt)
            (snd (async_integrate f (Some k) (Some data) t0 s))))
          = total_energy s)"
  using assms by (simp add: async_integrate_def py_float_def Let_def)

theorem trapezoid_constant_power_witness:
  "(Map.empty(''charge_power'' \<mapsto> Num 100)) ''charge_power'' = Some (Num 100)
   \<and> last_power riemann_sensor_init = None
   \<and> (0::real) < 1800 \<and> (1800::real) < 3600
   \<and> total_energy (snd (async_integrate (\<lambda>t. None) (Some ''charge_power'')
        (Some (Map.empty(''charge_power'' \<mapsto> Num 100))) (0 + 1800)
        (snd (async_integrate (\<lambda>t. None) (Some ''charge_power'')
           (Some (Map.empty(''charge_power'' \<mapsto> Num 100))) 0 riemann_sensor_init))))
      = 0.05
   \<and> (3600::real) \<le> 7200
   \<and> total_energy (snd (async_integrate (\<lambda>t. None) (Some ''charge_power'')
        (Some (Map.empty(''charge_power'' \<mapsto> Num 100))) (0 + 7200)
        (snd (async_integrate (\<lambda>t. None) (Some ''charge_power'')
           (Some (Map.empty(''charge_power'' \<mapsto> Num 100))) 0 riemann_sensor_init))))
      = 0"
proof -
  let ?d = "Map.empty(''charge_power'' \<mapsto> Num 100) :: snapshot"
  have d: "?d ''charge_power'' = Some (Num 100)"
    by simp
  have l: "last_power riemann_sensor_init = None"
    by (simp add: riemann_sensor_init_def)
  have z: "total_energy riemann_sensor_init = 0"
    by (simp add: riemann_sensor_init_def)
  from trapezoid_constant_power
      [where data = ?d and k = "''charge_power''" and s = riemann_sensor_init and dt = 1800
        and f = "\<lambda>t. None" and ?t0.0 = 0, OF d l]
    trapezoid_constant_power
      [where data = ?d and k = "''charge_power''" and s = riemann_sensor_init and dt = 7200
        and f = "\<lambda>t. None" and ?t0.0 = 0, OF d l]
    d l z
  show ?thesis
    by simp
qed

text \<open>
  C8, as stated, fails in two places: with no stored state the restore logs no warning,
  and a stored value with more than six decimals (5.0000004) is published as its
  rounding to six decimals (5), not as the value itself.
\<close>

theorem restore_total_energy_counterexample:
  "log_warnings (riemann_restore (\<lambda>t. None) None riemann_sensor_init) = 0
   \<and> published (snd (riemann_async_added_to_hass
        (\<lambda>t. if t = ''5.0000004'' then Some (50000004 / 10000000) else None)
        (Some ''charge_power'')
        (Some \<lparr>state = ''5.0000004'', attributes = []\<rparr>)
        (Some (Map.empty(''charge_power'' \<mapsto> Num 100))) 0 riemann_sensor_init)) = [Some 5]"
proof -
  have "riemann_restore (\<lambda>t. if t = ''5.0000004'' then Some (50000004 / 10000000) else None)
      (Some \<lparr>state = ''5.0000004'', attributes = []\<rparr>) riemann_sensor_init
    = riemann_sensor_init\<lparr>total_energy := 50000004 / 10000000\<rparr>"
    by (simp add: riemann_restore_def)
  then show ?thesis
    using py_round_five_and_a_bit
    by (simp add: riemann_async_added_to_hass_def async_integrate_def
      py_float_def native_value_def riemann_sensor_init_def Let_def riemann_restore_def)
qed

text \<open>
  C8, amended: the restore is a total function of the stored state. A stored text that
  parses to the number v sets the accumulated energy to v; the startup tick that finds a
  numeric power sample then integrates nothing and publishes v rounded to six decimals,
  which is v itself when v has at most six decimals. A stored text that does not parse
  sets the accumulated energy to 0 and logs one warning. With no stored state the
  initial state, whose accumulated energy is 0, is kept and nothing is logged. Startup
  raises no exception when the power sample is absent, a number, or a text that parses.
\<close>

theorem restore_total_energy:
  "(\<forall>v. float_of (state st) = Some v \<longrightarrow>
      riemann_restore float_of (Some st) s = s\<lparr>total_energy := v\<rparr>
      \<and> (\<forall>(k::string) (data::snapshot) p t. data k = Some (Num p) \<longrightarrow>
           riemann_async_added_to_hass float_of (Some k) (Some st) (Some data) t
             riemann_sensor_init
           = (None, riemann_sensor_init\<lparr>attr_native_value := Some (py_round v 6),
                published := [Some (if v \<noteq> 0 then py_round v 6 else 0)],
                total_energy := v, last_power := Some \<bar>p\<bar>, last_update := Some t\<rparr>))
      \<and> (\<forall>m. v * 10 ^ 6 = of_int m \<longrightarrow> py_round v 6 = v))
   \<and> (float_of (state st) = None \<longrightarrow>
      riemann_restore float_of (Some st) s
        = s\<lparr>total_energy := 0, log_warnings := Suc (log_warnings s)\<rparr>)
   \<and> riemann_restore float_of None riemann_sensor_init = riemann_sensor_init
   \<and> total_energy riemann_sensor_init = 0
   \<and> (\<forall>last_state (k::string) (data::snapshot) t.
        (\<forall>x. data k = Some (Str x) \<longrightarrow> float_of x \<noteq> None) \<longrightarrow>
        fst (riemann_async_added_to_hass float_of (Some k) last_state (Some data) t
               riemann_sensor_init) = None)"
proof (intro conjI impI allI)
  fix v
  assume "float_of (state st) = Some v"
  then show "riemann_restore float_of (Some st) s = s\<lparr>total_energy := v\<rparr>"
    by (simp add: riemann_restore_def)
next
  fix v and k :: string and data :: snapshot and p t
  assume "float_of (state st) = Some v" "data k = Some (Num p)"
  then show "riemann_async_added_to_hass float_of (Some k) (Some st) (Some data) t
             riemann_sensor_init
           = (None, riemann_sensor_init\<lparr>attr_native_value := Some (py_round v 6),
                published := [Some (if v \<noteq> 0 then py_round v 6 else 0)],
                total_energy := v, last_power := Some \<bar>p\<bar>, last_update := Some t\<rparr>)"
    by (simp add: riemann_restore_def riemann_async_added_to_hass_def async_integrate_def
      py_float_def native_value_def riemann_sensor_init_def Let_def)
next
  fix v :: real and m
  assume "v * 10 ^ 6 = of_int m"
  then show "py_round v 6 = v"
    by (rule py_round_exact)
next
  assume "float_of (state st) = None"
  then show "riemann_restore float_of (Some st) s
        = s\<lparr>total_energy := 0, log_warnings := Suc (log_warnings s)\<rparr>"
    by (simp add: riemann_restore_def)
next
  show "riemann_restore float_of None riemann_sensor_init = riemann_sensor_init"
    by (simp add: riemann_restore_def)
next
  show "total_energy riemann_sensor_init = 0"
    by (simp add: riemann_sensor_init_def)
next
  fix last_state and k :: string and data :: snapshot and t
  assume a: "\<forall>x. data k = Some (Str x) \<longrightarrow> float_of x \<noteq> None"
  show "fst (riemann_async_added_to_hass float_of (Some k) last_state (Some data) t
               riemann_sensor_init) = None"
  proof (cases "data k")
    case None
    then show ?thesis
      by (simp add: riemann_async_added_to_hass_def async_integrate_def)
  next
    case (Some w)
    with a show ?thesis
      by (cases w)
        (auto simp: riemann_async_added_to_hass_def async_integrate_def py_float_def Let_def
          split: option.splits)
  qed
qed

theorem restore_total_energy_witness:
  "(\<lambda>t. if t = ''5.0'' then Some (5::real) else None)
      (state \<lparr>state = ''5.0'', attributes = []\<rparr>) = Some 5
   \<and> (Map.empty(''charge_power'' \<mapsto> Num (- 40))) ''charge_power'' = Some (Num (- 40))
   \<and> (5::real) * 10 ^ 6 = of_int 5000000
   \<and> riemann_async_added_to_hass (\<lambda>t. if t = ''5.0'' then Some 5 else None)
       (Some ''charge_power'') (Some \<lparr>state = ''5.0'', attributes = []\<rparr>)
       (Some (Map.empty(''charge_power'' \<mapsto> Num (- 40)))) 0 riemann_sensor_init
     = (None, riemann_sensor_init\<lparr>attr_native_value := Some 5, published := [Some 5],
          total_energy := 5, last_power := Some 40, last_update := Some 0\<rparr>)
   \<and> (\<lambda>t. if t = ''5.0'' then Some (5::real) else None)
      (state \<lparr>state = ''unavailable'', attributes = []\<rparr>) = None
   \<and> riemann_restore (\<lambda>t. if t = ''5.0'' then Some 5 else None)
       (Some \<lparr>state = ''unavailable'', attributes = []\<rparr>) riemann_sensor_init
     = riemann_sensor_init\<lparr>log_warnings := 1\<rparr>"
proof -
  let ?f = "\<lambda>t. if t = ''5.0'' then Some (5::real) else None"
  let ?st = "\<lparr>state = ''5.0'', attributes = []\<rparr>"
  let ?bad = "\<lparr>state = ''unavailable'', attributes = []\<rparr>"
  let ?d = "Map.empty(''charge_power'' \<mapsto> Num (- 40)) :: snapshot"
  have f: "?f (state ?st) = Some 5"
    by simp
  have d: "?d ''charge_power'' = Some (Num (- 40))"
    by simp
  have m: "(5::real) * 10 ^ 6 = of_int 5000000"
    by simp
  have b: "?f (state ?bad) = None"
    by simp
  note good = restore_total_energy
      [where float_of = ?f and st = ?st and s = riemann_sensor_init,
        THEN conjunct1, rule_format, OF f]
  note start = good [THEN conjunct2, THEN conjunct1, rule_format,
      where data = ?d and k = "''charge_power''" and p = "- 40" and t = 0, OF d]
  note exact = good [THEN conjunct2, THEN conjunct2, rule_format, OF m]
  note fallback = restore_total_energy
      [where float_of = ?f and st = ?bad and s = riemann_sensor_init,
        THEN conjunct2, THEN conjunct1, rule_format, OF b]
  have 1: "riemann_async_added_to_hass ?f (Some ''charge_power'') (Some ?st) (Some ?d) 0
             riemann_sensor_init
           = (None, riemann_sensor_init\<lparr>attr_native_value := Some 5,
                published := [Some 5],
                total_energy := 5, last_power := Some 40, last_update := Some 0\<rparr>)"
    unfolding start exact by simp
  have 2: "riemann_restore ?f (Some ?bad) riemann_sensor_init
      = riemann_sensor_init\<lparr>log_warnings := 1\<rparr>"
    unfolding fallback by (simp add: riemann_sensor_init_def)
  from f d m b 1 2 show ?thesis
    by blast
qed

lemma integrate_mono:
  assumes "last_power_nonneg s"
  shows "total_energy s \<le> total_energy (snd (async_integrate f k d t s))
       \<and> last_power_nonneg (snd (async_integrate f k d t s))"
  using assms
  by (auto simp: async_integrate_def py_float_def Let_def last_power_nonneg_def
      split: option.splits sum.splits pyval.splits)

lemma trace_ge:
  "last_power_nonneg s
   \<Longrightarrow> \<forall>x \<in> set (integrate_trace f k ticks s). total_energy s \<le> total_energy x"
proof (induction ticks arbitrary: s)
  case Nil
  then show ?case
    by simp
next
  case (Cons a ticks)
  obtain d t where a: "a = (d, t)"
    by (cases a)
  let ?s' = "snd (async_integrate f k d t s)"
  from integrate_mono [OF Cons.prems, of f k d t]
  have m: "total_energy s \<le> total_energy ?s'" and i: "last_power_nonneg ?s'"
    by simp_all
  from Cons.IH [OF i] m show ?case
    by (auto simp: a)
qed

lemma trace_sorted:
  "last_power_nonneg s \<Longrightarrow> sorted (map total_energy (integrate_trace f k ticks s))"
proof (induction ticks arbitrary: s)
  case Nil
  then show ?case
    by simp
next
  case (Cons a ticks)
  obtain d t where a: "a = (d, t)"
    by (cases a)
  let ?s' = "snd (async_integrate f k d t s)"
  from integrate_mono [OF Cons.prems, of f k d t]
  have m: "total_energy s \<le> total_energy ?s'" and i: "last_power_nonneg ?s'"
    by simp_all
  from trace_ge [OF i, of f k ticks] m
  have "\<forall>x \<in> set (integrate_trace f k ticks ?s'). total_energy s \<le> total_energy x"
    by fastforce
  with Cons.IH [OF i] show ?case
    by (simp add: a)
qed

lemma restore_last_power_nonneg:
  "last_power_nonneg (riemann_restore f last_state riemann_sensor_init)"
  by (simp add: last_power_nonneg_def riemann_restore_def riemann_sensor_init_def
      split: option.splits)

text \<open>
  C9: the accumulated energy never decreases. Along every run of ticks, whatever the
  snapshots and clock readings, the accumulated energies of the states passed through
  are in non-decreasing order. This holds from every state whose stored previous sample
  is an absolute value (the only kind the integrator stores), so in particular from the
  state after startup, whatever was restored.
\<close>

theorem accumulated_energy_monotone:
  "(last_power_nonneg s \<longrightarrow> sorted (map total_energy (integrate_trace f k ticks s)))
   \<and> sorted (map total_energy
        (integrate_trace f k ticks (riemann_restore f last_state riemann_sensor_init)))"
  using trace_sorted restore_last_power_nonneg by blast

theorem accumulated_energy_monotone_witness:
  "last_power_nonneg (riemann_sensor_init\<lparr>total_energy := 2, last_power := Some 100,
       last_update := Some 0\<rparr>)
   \<and> sorted (map total_energy (integrate_trace (\<lambda>t. None) (Some ''charge_power'')
        [(Some (Map.empty(''charge_power'' \<mapsto> Num (- 100))), 1800),
         (None, 1900),
         (Some (Map.empty(''charge_power'' \<mapsto> Num 300)), 1700),
         (Some (Map.empty(''charge_power'' \<mapsto> Str ''n/a'')), 2000),
         (Some (Map.empty(''charge_power'' \<mapsto> Num 300)), 3500)]
        (riemann_sensor_init\<lparr>total_energy := 2, last_power := Some 100,
           last_update := Some 0\<rparr>)))
   \<and> map total_energy (integrate_trace (\<lambda>t. None) (Some ''charge_power'')
        [(Some (Map.empty(''charge_power'' \<mapsto> Num (- 100))), 1800),
         (None, 1900),
         (Some (Map.empty(''charge_power'' \<mapsto> Num 300)), 1700),
         (Some (Map.empty(''charge_power'' \<mapsto> Str ''n/a'')), 2000),
         (Some (Map.empty(''charge_power'' \<mapsto> Num 300)), 3500)]
        (riemann_sensor_init\<lparr>total_energy := 2, last_power := Some 100,
           last_update := Some 0\<rparr>))
     = [2, 2.05, 2.05, 2.05, 2.05, 2.2]"
proof -
  let ?s = "riemann_sensor_init\<lparr>total_energy := 2, last_power := Some 100,
    last_update := Some 0\<rparr>"
  have h: "last_power_nonneg ?s"
    by (simp add: last_power_nonneg_def)
  have v: "map total_energy (integrate_trace (\<lambda>t. None) (Some ''charge_power'')
        [(Some (Map.empty(''charge_power'' \<mapsto> Num (- 100))), 1800),
         (None, 1900),
         (Some (Map.empty(''charge_power'' \<mapsto> Num 300)), 1700),
         (Some (Map.empty(''charge_power'' \<mapsto> Str ''n/a'')), 2000),
         (Some (Map.empty(''charge_power'' \<mapsto> Num 300)), 3500)] ?s)
     = [2, 2.05, 2.05, 2.05, 2.05, 2.2]"
    by (simp add: async_integrate_def py_float_def Let_def riemann_sensor_init_def)
  from accumulated_energy_monotone [where s = ?s, THEN conjunct1, rule_format, OF h] h v
  show ?thesis
    by blast
qed

section \<open>Properties of the flattener\<close>

lemma dict_update_Nil [simp]: "dict_update d [] = d"
  by (simp add: dict_update_def)

lemma dict_update_Cons [simp]:
  "dict_update d ((k, v) # other) = dict_update (AList.update k v d) other"
  by (simp add: dict_update_def)

lemma distinct_dict_update:
  "distinct (map fst d) \<Longrightarrow> distinct (map fst (dict_update d other))"
  by (induction other arbitrary: d) (auto simp: distinct_update)

lemma map_of_dict_update:
  "distinct (map fst other) \<Longrightarrow> map_of (dict_update d other) = map_of d ++ map_of other"
proof (induction other arbitrary: d)
  case Nil
  then show ?case by simp
next
  case (Cons a other)
  obtain k v where a: "a = (k, v)" by (cases a)
  from Cons.prems a have k: "k \<notin> fst ` set other" and d: "distinct (map fst other)"
    by auto
  from k have n: "map_of other k = None"
    by (simp add: map_of_eq_None_iff)
  have "map_of (dict_update d (a # other)) = map_of (AList.update k v d) ++ map_of other"
    using Cons.IH [OF d, of "AList.update k v d"] by (simp only: a dict_update_Cons)
  also have "\<dots> = (map_of d)(k \<mapsto> v) ++ map_of other"
    by (simp only: update_conv')
  also have "\<dots> = map_of d ++ (map_of other)(k \<mapsto> v)"
  proof (rule ext)
    fix x
    show "((map_of d)(k \<mapsto> v) ++ map_of other) x = (map_of d ++ (map_of other)(k \<mapsto> v)) x"
      using n by (cases "x = k") (simp_all add: map_add_def split: option.splits)
  qed
  also have "\<dots> = map_of d ++ map_of (a # other)"
    by (simp add: a)
  finally show ?case .
qed

lemma set_update_subset: "set (AList.update k v al) \<subseteq> insert (k, v) (set al)"
  by (induction al) auto

lemma leaf_update:
  assumes "\<forall>p \<in> set d. P (snd p)" and "P v"
  shows "\<forall>p \<in> set (AList.update k v d). P (snd p)"
proof
  fix p assume "p \<in> set (AList.update k v d)"
  with set_update_subset [of k v d] have "p = (k, v) \<or> p \<in> set d" by blast
  with assms show "P (snd p)" by auto
qed

lemma values_dict_update:
  "\<forall>p \<in> set d. P (snd p) \<Longrightarrow> \<forall>p \<in> set other. P (snd p)
   \<Longrightarrow> \<forall>p \<in> set (dict_update d other). P (snd p)"
proof (induction other arbitrary: d)
  case Nil
  then show ?case by simp
next
  case (Cons a other)
  obtain k v where a: "a = (k, v)" by (cases a)
  from Cons.prems(2) a have v: "P v" and o: "\<forall>p \<in> set other. P (snd p)" by simp_all
  from leaf_update [OF Cons.prems(1) v]
  have u: "\<forall>p \<in> set (AList.update k v d). P (snd p)" .
  from Cons.IH [OF u o] show ?case by (simp only: a dict_update_Cons)
qed

lemma flatten_distinct:
  "distinct (map fst (flatten_dataclass str_of obj prefix))"
  "distinct (map fst flat_dict) \<Longrightarrow> distinct (map fst (flatten_fields str_of fs flat_dict))"
proof (induction str_of obj prefix and str_of fs flat_dict
    rule: flatten_dataclass_flatten_fields.induct)
  case (7 str_of name "value" rest flat_dict)
  show ?case
  proof (cases "value")
    case (Dataclass x)
    with 7 show ?thesis by (simp add: distinct_dict_update)
  qed (use 7 in \<open>simp_all add: distinct_update\<close>)
qed simp_all


lemma flatten_leaf_values:
  "\<forall>p \<in> set (flatten_dataclass str_of obj prefix). is_leaf (snd p)"
  "\<forall>p \<in> set flat_dict. is_leaf (snd p)
   \<Longrightarrow> \<forall>p \<in> set (flatten_fields str_of fs flat_dict). is_leaf (snd p)"
proof (induction str_of obj prefix and str_of fs flat_dict
    rule: flatten_dataclass_flatten_fields.induct)
  case (7 str_of name "value" rest flat_dict)
  show ?case
  proof (cases "is_leaf value")
    case True
    from leaf_update [OF 7(3) True]
    have u: "\<forall>p \<in> set (AList.update name value flat_dict). is_leaf (snd p)" .
    from True have c: "(case value of PNone \<Rightarrow> flat_dict
         | Dataclass x \<Rightarrow> dict_update flat_dict (flatten_dataclass str_of value [])
         | _ \<Rightarrow> AList.update name value flat_dict) = AList.update name value flat_dict"
      by (cases "value") simp_all
    from 7(2) u show ?thesis by (simp only: flatten_fields.simps c)
  next
    case False
    then consider "value = PNone" | x where "value = Dataclass x"
      by (cases "value") simp_all
    then show ?thesis
    proof cases
      case 1
      with 7(2,3) show ?thesis by simp
    next
      case 2
      from values_dict_update [OF 7(3) 7(1) [OF 2]]
      have "\<forall>p \<in> set (dict_update flat_dict (flatten_dataclass str_of value [])). is_leaf (snd p)" .
      with 7(2) 2 show ?thesis by simp
    qed
  qed
qed simp_all

lemma flatten_fields_leaf_step:
  assumes leaf: "is_leaf value"
    and rest: "\<And>d. map_of (flatten_fields str_of rest d)
      = map_of d ++ map_of (rev (leaf_fields rest))"
  shows "map_of (flatten_fields str_of ((name, value) # rest) flat_dict)
      = map_of flat_dict ++ map_of (rev (leaf_fields ((name, value) # rest)))"
proof -
  from leaf have c: "(case value of PNone \<Rightarrow> flat_dict
         | Dataclass x \<Rightarrow> dict_update flat_dict (flatten_dataclass str_of value [])
         | _ \<Rightarrow> AList.update name value flat_dict) = AList.update name value flat_dict"
    by (cases "value") simp_all
  from leaf have l: "leaf_fields ((name, value) # rest) = (name, value) # leaf_fields rest"
    by (cases "value") simp_all
  have "map_of (flatten_fields str_of ((name, value) # rest) flat_dict)
      = map_of (AList.update name value flat_dict) ++ map_of (rev (leaf_fields rest))"
    using rest [of "AList.update name value flat_dict"]
    by (simp only: flatten_fields.simps c)
  also have "\<dots> = (map_of flat_dict)(name \<mapsto> value) ++ map_of (rev (leaf_fields rest))"
    by (simp only: update_conv')
  also have "\<dots> = map_of flat_dict ++ map_of (rev ((name, value) # leaf_fields rest))"
    by (rule ext) (simp add: map_of_append map_add_def split: option.splits)
  finally show ?thesis
    by (simp only: l)
qed

lemma flatten_fields_map_of:
  "map_of (flatten_fields str_of fs flat_dict)
     = map_of flat_dict ++ map_of (rev (leaf_fields fs))"
proof (induction fs arbitrary: flat_dict rule: leaf_fields.induct)
  case 1
  then show ?case
    by simp
next
  case (2 name fs rest)
  have d: "distinct (map fst (flatten_fields str_of fs []))"
    by (rule flatten_distinct(2)) simp
  have "map_of (flatten_fields str_of ((name, Dataclass fs) # rest) flat_dict)
      = map_of (dict_update flat_dict (flatten_fields str_of fs []))
          ++ map_of (rev (leaf_fields rest))"
    using 2(2) by simp
  also have "\<dots> = (map_of flat_dict ++ map_of (rev (leaf_fields fs)))
      ++ map_of (rev (leaf_fields rest))"
    using map_of_dict_update [OF d, of flat_dict] 2(1) [of "[]"] by simp
  also have "\<dots>
      = map_of flat_dict ++ map_of (rev (leaf_fields ((name, Dataclass fs) # rest)))"
    by (simp add: map_of_append)
  finally show ?case .
next
  case (3 name rest)
  then show ?case
    by simp
qed (rule flatten_fields_leaf_step, simp, simp)+

text \<open>
  C7: for every input, no entry of the flattened dictionary holds \<open>None\<close> (every value
  is a leaf value) and every key occurs exactly once. For a record, and for a
  dictionary of records and scalars, the keys are exactly the names of the leaf fields
  that hold a value, nested ones under their own name without a prefix, and each key
  maps to the value written last for that name.
\<close>

theorem flatten_dataclass_leaves_last_write_wins:
  "PNone \<notin> snd ` set (flatten_dataclass str_of obj prefix)
   \<and> list_all (\<lambda>p. is_leaf (snd p)) (flatten_dataclass str_of obj prefix)
   \<and> distinct (map fst (flatten_dataclass str_of obj prefix))
   \<and> map_of (flatten_dataclass str_of (Dataclass fs) prefix) = map_of (rev (leaf_fields fs))
   \<and> map_of (flatten_dataclass str_of (PDict fs) prefix) = map_of (rev (leaf_fields fs))
   \<and> fst ` set (flatten_dataclass str_of (Dataclass fs) prefix) = fst ` set (leaf_fields fs)
   \<and> fst ` set (flatten_dataclass str_of (PDict fs) prefix) = fst ` set (leaf_fields fs)"
proof -
  have leaf: "\<forall>p \<in> set (flatten_dataclass str_of obj prefix). is_leaf (snd p)"
    by (rule flatten_leaf_values(1))
  have 1: "PNone \<notin> snd ` set (flatten_dataclass str_of obj prefix)"
  proof
    assume "PNone \<in> snd ` set (flatten_dataclass str_of obj prefix)"
    then obtain p where "p \<in> set (flatten_dataclass str_of obj prefix)" "snd p = PNone"
      by auto
    with leaf show False
      by auto
  qed
  from leaf have 2: "list_all (\<lambda>p. is_leaf (snd p)) (flatten_dataclass str_of obj prefix)"
    by (simp add: list_all_iff)
  have 3: "distinct (map fst (flatten_dataclass str_of obj prefix))"
    by (rule flatten_distinct(1))
  have m: "map_of (flatten_fields str_of fs []) = map_of (rev (leaf_fields fs))"
    using flatten_fields_map_of [of str_of fs "[]"] by simp
  have "dom (map_of (flatten_fields str_of fs [])) = dom (map_of (rev (leaf_fields fs)))"
    by (simp only: m)
  then have k: "fst ` set (flatten_fields str_of fs []) = fst ` set (leaf_fields fs)"
    by (simp add: dom_map_of_conv_image_fst)
  from 1 2 3 m k show ?thesis
    by simp
qed

theorem flatten_dataclass_leaves_last_write_wins_witness:
  "flatten_dataclass (\<lambda>_. ''?'')
     (PDict [(''modbus'',
        Dataclass [(''soc'', Scalar (80::int)),
                   (''grid'', Dataclass [(''power'', Scalar 5), (''soc'', Scalar 81),
                                         (''error'', PNone)]),
                   (''power'', PNone),
                   (''state'', Scalar 3)]),
             (''serial'', Scalar 7),
             (''state'', Scalar 4)]) []
   = [(''soc'', Scalar 81), (''power'', Scalar 5), (''state'', Scalar 4), (''serial'', Scalar 7)]
   \<and> leaf_fields
     [(''modbus'',
        Dataclass [(''soc'', Scalar (80::int)),
                   (''grid'', Dataclass [(''power'', Scalar 5), (''soc'', Scalar 81),
                                         (''error'', PNone)]),
                   (''power'', PNone),
                   (''state'', Scalar 3)]),
             (''serial'', Scalar 7),
             (''state'', Scalar 4)]
   = [(''soc'', Scalar 80), (''power'', Scalar 5), (''soc'', Scalar 81), (''state'', Scalar 3),
      (''serial'', Scalar 7), (''state'', Scalar 4)]
   \<and> distinct (map fst (flatten_dataclass (\<lambda>_. ''?'')
     (PDict [(''modbus'',
        Dataclass [(''soc'', Scalar (80::int)),
                   (''grid'', Dataclass [(''power'', Scalar 5), (''soc'', Scalar 81),
                                         (''error'', PNone)]),
                   (''power'', PNone),
                   (''state'', Scalar 3)]),
             (''serial'', Scalar 7),
             (''state'', Scalar 4)]) []))"
proof -
  let ?fs = "[(''modbus'',
        Dataclass [(''soc'', Scalar (80::int)),
                   (''grid'', Dataclass [(''power'', Scalar 5), (''soc'', Scalar 81),
                                         (''error'', PNone)]),
                   (''power'', PNone),
                   (''state'', Scalar 3)]),
             (''serial'', Scalar 7),
             (''state'', Scalar 4)]"
  have a: "flatten_dataclass (\<lambda>_. ''?'') (PDict ?fs) []
      = [(''soc'', Scalar 81), (''power'', Scalar 5), (''state'', Scalar 4),
         (''serial'', Scalar 7)]"
    by (simp add: dict_update_def)
  have b: "leaf_fields ?fs
      = [(''soc'', Scalar 80), (''power'', Scalar 5), (''soc'', Scalar 81),
         (''state'', Scalar 3), (''serial'', Scalar 7), (''state'', Scalar 4)]"
    by simp
  from flatten_dataclass_leaves_last_write_wins
      [of "\<lambda>_. ''?''" "PDict ?fs" "[]" ?fs]
  have "distinct (map fst (flatten_dataclass (\<lambda>_. ''?'') (PDict ?fs) []))"
    by blast
  with a b show ?thesis
    by blast
qed

section \<open>Properties of the fetch functions\<close>

lemma modbus_attempt_eq:
  "modbus_attempt dev = (responses dev (requests dev),
     dev\<lparr>connects := Suc (connects dev), requests := Suc (requests dev)\<rparr>)"
  by (simp add: modbus_attempt_def device_call_def VartaStorage_def)

lemma cgi_attempt_connects: "connects (snd (cgi_attempt dev)) = Suc (connects dev)"
  by (simp add: cgi_attempt_def device_call_def VartaStorage_def Let_def
      split: sum.splits option.splits prod.splits)

lemma modbus_in_time:
  "async_update_modbus str_of False dev = sync_update_modbus str_of dev"
  by (simp add: async_update_modbus_def split: prod.splits)

lemma cgi_in_time: "async_update_cgi str_of False dev = sync_update_cgi str_of dev"
  by (simp add: async_update_cgi_def split: prod.splits)

lemma modbus_timed_out:
  "async_update_modbus str_of True dev
     = (Inl TimeoutError, snd (sync_update_modbus str_of dev))"
  by (simp add: async_update_modbus_def split: prod.splits)

lemma cgi_timed_out:
  "async_update_cgi str_of True dev = (Inl TimeoutError, snd (sync_update_cgi str_of dev))"
  by (simp add: async_update_cgi_def split: prod.splits)

lemma modbus_retry:
  assumes "responses dev (requests dev) = Inl e"
    and "responses dev (Suc (requests dev)) = Inr r"
  shows "sync_update_modbus str_of dev =
          (Inr (flatten_dataclass str_of r []),
           dev\<lparr>connects := connects dev + 2, requests := requests dev + 2\<rparr>)"
  using assms by (simp add: sync_update_modbus_def modbus_attempt_eq)

lemma modbus_fail:
  assumes "responses dev (requests dev) = Inl e"
    and "responses dev (Suc (requests dev)) = Inl e'"
  shows "sync_update_modbus str_of dev =
          (Inl (UpdateFailed ''Can not retrieve Modbus Data from the VARTA Device.''),
           dev\<lparr>connects := connects dev + 2, requests := requests dev + 2\<rparr>)"
  using assms by (simp add: sync_update_modbus_def modbus_attempt_eq)

lemma cgi_retry:
  assumes "fst (cgi_attempt dev) = Inl e"
    and "fst (cgi_attempt (snd (cgi_attempt dev))) = Inr fetched"
  shows "fst (sync_update_cgi str_of dev) = Inr (cgi_flat_data str_of fetched)"
    and "connects (snd (sync_update_cgi str_of dev)) = connects dev + 2"
  using assms cgi_attempt_connects [of dev] cgi_attempt_connects [of "snd (cgi_attempt dev)"]
  by (auto simp: sync_update_cgi_def split: prod.splits sum.splits)

lemma cgi_fail:
  assumes "fst (cgi_attempt dev) = Inl e"
    and "fst (cgi_attempt (snd (cgi_attempt dev))) = Inl e'"
  shows "fst (sync_update_cgi str_of dev)
      = Inl (UpdateFailed ''Can not retrieve CGI Data from the VARTA Device.'')"
    and "connects (snd (sync_update_cgi str_of dev)) = connects dev + 2"
  using assms cgi_attempt_connects [of dev] cgi_attempt_connects [of "snd (cgi_attempt dev)"]
  by (auto simp: sync_update_cgi_def split: prod.splits sum.splits)

text \<open>
  C3, as stated, fails when the timeout elapses. The first getter call fails and the
  retry succeeds, yet the Modbus fetch ends in \<open>TimeoutError\<close> and the refreshed cache
  still holds the previous snapshot; both attempts of the CGI fetch fail, yet it ends
  in \<open>TimeoutError\<close> and not in \<open>UpdateFailed\<close>.
\<close>

theorem fetch_retries_once_counterexample:
  "responses \<lparr>connects = 0, requests = 0,
       responses = (\<lambda>n. if n = 0 then Inl ''refused''
          else Inr (Dataclass [(''soc'', Scalar (80::int))]))\<rparr> 0 = Inl ''refused''
   \<and> responses \<lparr>connects = 0, requests = 0,
       responses = (\<lambda>n. if n = 0 then Inl ''refused''
          else Inr (Dataclass [(''soc'', Scalar (80::int))]))\<rparr> 1
      = Inr (Dataclass [(''soc'', Scalar 80)])
   \<and> fst (async_update_modbus (\<lambda>_. ''?'') True
      \<lparr>connects = 0, requests = 0,
       responses = (\<lambda>n. if n = 0 then Inl ''refused''
          else Inr (Dataclass [(''soc'', Scalar (80::int))]))\<rparr>) = Inl TimeoutError
   \<and> cached_snapshot (coordinator_refresh (fst (async_update_modbus (\<lambda>_. ''?'') True
      \<lparr>connects = 0, requests = 0,
       responses = (\<lambda>n. if n = 0 then Inl ''refused''
          else Inr (Dataclass [(''soc'', Scalar (80::int))]))\<rparr>))
        \<lparr>cached_snapshot = Some [(''soc'', Scalar 70)]\<rparr>)
      = Some [(''soc'', Scalar 70)]
   \<and> fst (cgi_attempt
      \<lparr>connects = 0, requests = 0, responses = (\<lambda>n. Inl ''refused'' :: exn + int pyobj)\<rparr>)
      = Inl ''refused''
   \<and> fst (cgi_attempt (snd (cgi_attempt
      \<lparr>connects = 0, requests = 0, responses = (\<lambda>n. Inl ''refused'' :: exn + int pyobj)\<rparr>)))
      = Inl ''refused''
   \<and> fst (async_update_cgi (\<lambda>_. ''?'') True
      \<lparr>connects = 0, requests = 0, responses = (\<lambda>n. Inl ''refused'' :: exn + int pyobj)\<rparr>)
      = Inl TimeoutError"
  by (simp add: modbus_timed_out cgi_timed_out coordinator_refresh_def cgi_attempt_def
      device_call_def VartaStorage_def)

text \<open>
  C3, amended: for the Modbus and the CGI fetch alike, when the two attempts return
  within the channel's timeout: if the first attempt fails and the second succeeds,
  the fetch returns the flattened reply of the second attempt and the refreshed cache
  holds it; if both attempts fail, the fetch has made exactly two attempts (two clients
  built; for Modbus, two calls of the getter), fails with \<open>UpdateFailed\<close> whose text
  names the channel, and the cache is what it was before. When the timeout elapses
  first, the fetch ends in \<open>TimeoutError\<close>, which is neither of the two, and the cache
  is what it was before.
\<close>

theorem fetch_retries_once:
  "(\<forall>e r. responses dev (requests dev) = Inl e
        \<and> responses dev (Suc (requests dev)) = Inr r \<longrightarrow>
      async_update_modbus str_of False dev =
        (Inr (flatten_dataclass str_of r []),
         dev\<lparr>connects := connects dev + 2, requests := requests dev + 2\<rparr>)
      \<and> cached_snapshot (coordinator_refresh (fst (async_update_modbus str_of False dev)) c)
          = Some (flatten_dataclass str_of r []))
   \<and> (\<forall>e e'. responses dev (requests dev) = Inl e
        \<and> responses dev (Suc (requests dev)) = Inl e' \<longrightarrow>
      async_update_modbus str_of False dev =
        (Inl (UpdateFailed ''Can not retrieve Modbus Data from the VARTA Device.''),
         dev\<lparr>connects := connects dev + 2, requests := requests dev + 2\<rparr>)
      \<and> coordinator_refresh (fst (async_update_modbus str_of False dev)) c = c)
   \<and> (\<forall>e fetched. fst (cgi_attempt dev) = Inl e
        \<and> fst (cgi_attempt (snd (cgi_attempt dev))) = Inr fetched \<longrightarrow>
      fst (async_update_cgi str_of False dev) = Inr (cgi_flat_data str_of fetched)
      \<and> connects (snd (async_update_cgi str_of False dev)) = connects dev + 2
      \<and> cached_snapshot (coordinator_refresh (fst (async_update_cgi str_of False dev)) c)
          = Some (cgi_flat_data str_of fetched))
   \<and> (\<forall>e e'. fst (cgi_attempt dev) = Inl e
        \<and> fst (cgi_attempt (snd (cgi_attempt dev))) = Inl e' \<longrightarrow>
      fst (async_update_cgi str_of False dev)
        = Inl (UpdateFailed ''Can not retrieve CGI Data from the VARTA Device.'')
      \<and> connects (snd (async_update_cgi str_of False dev)) = connects dev + 2
      \<and> coordinator_refresh (fst (async_update_cgi str_of False dev)) c = c)
   \<and> fst (async_update_modbus str_of True dev) = Inl TimeoutError
   \<and> coordinator_refresh (fst (async_update_modbus str_of True dev)) c = c
   \<and> fst (async_update_cgi str_of True dev) = Inl TimeoutError
   \<and> coordinator_refresh (fst (async_update_cgi str_of True dev)) c = c"
proof (intro conjI allI impI)
  fix e r
  assume a: "responses dev (requests dev) = Inl e
    \<and> responses dev (Suc (requests dev)) = Inr r"
  then show m: "async_update_modbus str_of False dev =
        (Inr (flatten_dataclass str_of r []),
         dev\<lparr>connects := connects dev + 2, requests := requests dev + 2\<rparr>)"
    using modbus_retry [of dev e r str_of] by (simp only: modbus_in_time)
  show "cached_snapshot (coordinator_refresh (fst (async_update_modbus str_of False dev)) c)
          = Some (flatten_dataclass str_of r [])"
    by (simp add: m coordinator_refresh_def)
next
  fix e e'
  assume a: "responses dev (requests dev) = Inl e
    \<and> responses dev (Suc (requests dev)) = Inl e'"
  then show m: "async_update_modbus str_of False dev =
        (Inl (UpdateFailed ''Can not retrieve Modbus Data from the VARTA Device.''),
         dev\<lparr>connects := connects dev + 2, requests := requests dev + 2\<rparr>)"
    using modbus_fail [of dev e e' str_of] by (simp only: modbus_in_time)
  show "coordinator_refresh (fst (async_update_modbus str_of False dev)) c = c"
    by (simp add: m coordinator_refresh_def)
next
  fix e fetched
  assume a: "fst (cgi_attempt dev) = Inl e
    \<and> fst (cgi_attempt (snd (cgi_attempt dev))) = Inr fetched"
  then show m: "fst (async_update_cgi str_of False dev) = Inr (cgi_flat_data str_of fetched)"
    using cgi_retry(1) [of dev e fetched str_of] by (simp only: cgi_in_time)
  from a show "connects (snd (async_update_cgi str_of False dev)) = connects dev + 2"
    using cgi_retry(2) [of dev e fetched str_of] by (simp only: cgi_in_time)
  show "cached_snapshot (coordinator_refresh (fst (async_update_cgi str_of False dev)) c)
          = Some (cgi_flat_data str_of fetched)"
    by (simp add: m coordinator_refresh_def)
next
  fix e e'
  assume a: "fst (cgi_attempt dev) = Inl e
    \<and> fst (cgi_attempt (snd (cgi_attempt dev))) = Inl e'"
  then show m: "fst (async_update_cgi str_of False dev)
        = Inl (UpdateFailed ''Can not retrieve CGI Data from the VARTA Device.'')"
    using cgi_fail(1) [of dev e e' str_of] by (simp only: cgi_in_time)
  from a show "connects (snd (async_update_cgi str_of False dev)) = connects dev + 2"
    using cgi_fail(2) [of dev e e' str_of] by (simp only: cgi_in_time)
  show "coordinator_refresh (fst (async_update_cgi str_of False dev)) c = c"
    by (simp add: m coordinator_refresh_def)
next
  show "fst (async_update_modbus str_of True dev) = Inl TimeoutError"
    by (simp add: modbus_timed_out)
  show "coordinator_refresh (fst (async_update_modbus str_of True dev)) c = c"
    by (simp add: modbus_timed_out coordinator_refresh_def)
  show "fst (async_update_cgi str_of True dev) = Inl TimeoutError"
    by (simp add: cgi_timed_out)
  show "coordinator_refresh (fst (async_update_cgi str_of True dev)) c = c"
    by (simp add: cgi_timed_out coordinator_refresh_def)
qed

theorem fetch_retries_once_witness:
  "async_update_modbus (\<lambda>_. ''?'') False
      \<lparr>connects = 0, requests = 0,
       responses = (\<lambda>n. if n = 0 then Inl ''timeout''
          else Inr (Dataclass [(''soc'', Scalar (80::int)),
                               (''grid'', Dataclass [(''power'', Scalar 5)]),
                               (''error'', PNone)]))\<rparr>
    = (Inr [(''soc'', Scalar 80), (''power'', Scalar 5)],
       \<lparr>connects = 2, requests = 2,
        responses = (\<lambda>n. if n = 0 then Inl ''timeout''
          else Inr (Dataclass [(''soc'', Scalar (80::int)),
                               (''grid'', Dataclass [(''power'', Scalar 5)]),
                               (''error'', PNone)]))\<rparr>)
   \<and> cached_snapshot (coordinator_refresh (fst (async_update_modbus (\<lambda>_. ''?'') False
      \<lparr>connects = 0, requests = 0,
       responses = (\<lambda>n. if n = 0 then Inl ''timeout''
          else Inr (Dataclass [(''soc'', Scalar (80::int)),
                               (''grid'', Dataclass [(''power'', Scalar 5)]),
                               (''error'', PNone)]))\<rparr>))
        \<lparr>cached_snapshot = Some [(''soc'', Scalar 70)]\<rparr>)
     = Some [(''soc'', Scalar 80), (''power'', Scalar 5)]
   \<and> async_update_modbus (\<lambda>_. ''?'') False
      \<lparr>connects = 0, requests = 0, responses = (\<lambda>n. Inl ''timeout'' :: exn + int pyobj)\<rparr>
    = (Inl (UpdateFailed ''Can not retrieve Modbus Data from the VARTA Device.''),
       \<lparr>connects = 2, requests = 2, responses = (\<lambda>n. Inl ''timeout'')\<rparr>)
   \<and> coordinator_refresh (fst (async_update_modbus (\<lambda>_. ''?'') False
        \<lparr>connects = 0, requests = 0, responses = (\<lambda>n. Inl ''timeout'' :: exn + int pyobj)\<rparr>))
        \<lparr>cached_snapshot = Some [(''soc'', Scalar 70)]\<rparr>
     = \<lparr>cached_snapshot = Some [(''soc'', Scalar 70)]\<rparr>
   \<and> fst (async_update_cgi (\<lambda>_. ''?'') False
      \<lparr>connects = 0, requests = 0,
       responses = (\<lambda>n. if n = 0 then Inr (Dataclass [(''wr_data'', PNone)])
          else if n = 1 then Inl ''timeout''
          else if n = 2 then Inr (Dataclass [(''wr_data'', Dataclass [(''u'', Scalar (230::int))])])
          else if n = 3 then Inr (Dataclass [(''total_charge_cycles'', PList [Scalar 12])])
          else if n = 4 then Inr (Dataclass [(''serial'', Scalar 7)])
          else Inr (Dataclass [(''fan'', PNone)]))\<rparr>)
     = Inr [(''u'', Scalar 230), (''total_charge_cycles'', Scalar 12), (''serial'', Scalar 7)]
   \<and> fst (async_update_cgi (\<lambda>_. ''?'') False
      \<lparr>connects = 0, requests = 0, responses = (\<lambda>n. Inl ''timeout'' :: exn + int pyobj)\<rparr>)
     = Inl (UpdateFailed ''Can not retrieve CGI Data from the VARTA Device.'')
   \<and> connects (snd (async_update_cgi (\<lambda>_. ''?'') False
      \<lparr>connects = 0, requests = 0, responses = (\<lambda>n. Inl ''timeout'' :: exn + int pyobj)\<rparr>))
     = 2"
proof -
  let ?reply = "Dataclass [(''soc'', Scalar (80::int)),
    (''grid'', Dataclass [(''power'', Scalar 5)]), (''error'', PNone)]"
  let ?good = "\<lparr>connects = 0, requests = 0,
    responses = (\<lambda>n. if n = 0 then Inl ''timeout'' else Inr ?reply)\<rparr>"
  let ?bad = "\<lparr>connects = 0, requests = 0,
    responses = (\<lambda>n. Inl ''timeout'' :: exn + int pyobj)\<rparr>"
  let ?cgi = "\<lparr>connects = 0, requests = 0,
       responses = (\<lambda>n. if n = 0 then Inr (Dataclass [(''wr_data'', PNone)])
          else if n = 1 then Inl ''timeout''
          else if n = 2 then Inr (Dataclass [(''wr_data'', Dataclass [(''u'', Scalar (230::int))])])
          else if n = 3 then Inr (Dataclass [(''total_charge_cycles'', PList [Scalar 12])])
          else if n = 4 then Inr (Dataclass [(''serial'', Scalar 7)])
          else Inr (Dataclass [(''fan'', PNone)]))\<rparr>"
  let ?ems = "Dataclass [(''wr_data'', Dataclass [(''u'', Scalar (230::int))])]"
  let ?result = "Dataclass [(''ems_data'', ?ems),
    (''energy_data'', Dataclass [(''total_charge_cycles'', Scalar 12)]),
    (''info_data'', Dataclass [(''serial'', Scalar 7)]),
    (''service_data'', Dataclass [(''fan'', PNone)])]"
  let ?c = "\<lparr>cached_snapshot = Some [(''soc'', Scalar (70::int))]\<rparr>"
  have g: "responses ?good (requests ?good) = Inl ''timeout''
      \<and> responses ?good (Suc (requests ?good)) = Inr ?reply"
    by simp
  have b: "responses ?bad (requests ?bad) = Inl ''timeout''
      \<and> responses ?bad (Suc (requests ?bad)) = Inl ''timeout''"
    by simp
  have c1: "cgi_attempt ?cgi = (Inl ''timeout'', ?cgi\<lparr>connects := 1, requests := 2\<rparr>)"
    by (simp add: cgi_attempt_def device_call_def VartaStorage_def)
  have c2: "fst (cgi_attempt (?cgi\<lparr>connects := 1, requests := 2\<rparr>)) = Inr (?ems, ?result)"
    by (simp add: cgi_attempt_def device_call_def VartaStorage_def py_getattr_def
        py_setattr_def)
  from c1 c2 have cg: "fst (cgi_attempt ?cgi) = Inl ''timeout''
      \<and> fst (cgi_attempt (snd (cgi_attempt ?cgi))) = Inr (?ems, ?result)"
    by simp
  have cb: "fst (cgi_attempt ?bad) = Inl ''timeout''
      \<and> fst (cgi_attempt (snd (cgi_attempt ?bad))) = Inl ''timeout''"
    by (simp add: cgi_attempt_def device_call_def VartaStorage_def)
  have fr: "flatten_dataclass (\<lambda>_. ''?'') ?reply []
      = [(''soc'', Scalar 80), (''power'', Scalar 5)]"
    by (simp add: dict_update_def)
  have fc: "cgi_flat_data (\<lambda>_. ''?'') (?ems, ?result)
      = [(''u'', Scalar 230), (''total_charge_cycles'', Scalar 12), (''serial'', Scalar 7)]"
    by (simp add: cgi_flat_data_def merge_nested_def py_getattr_def dict_update_def)
  note m_ok = fetch_retries_once
    [where dev = ?good and str_of = "\<lambda>_. ''?''" and c = ?c,
      THEN conjunct1, rule_format, OF g]
  note m_fail = fetch_retries_once
    [where dev = ?bad and str_of = "\<lambda>_. ''?''" and c = ?c,
      THEN conjunct2, THEN conjunct1, rule_format, OF b]
  note c_ok = fetch_retries_once
    [where dev = ?cgi and str_of = "\<lambda>_. ''?''" and c = ?c,
      THEN conjunct2, THEN conjunct2, THEN conjunct1, rule_format, OF cg]
  note c_fail = fetch_retries_once
    [where dev = ?bad and str_of = "\<lambda>_. ''?''" and c = ?c,
      THEN conjunct2, THEN conjunct2, THEN conjunct2, THEN conjunct1, rule_format, OF cb]
  have 1: "async_update_modbus (\<lambda>_. ''?'') False ?good
      = (Inr [(''soc'', Scalar 80), (''power'', Scalar 5)],
         \<lparr>connects = 2, requests = 2,
          responses = (\<lambda>n. if n = 0 then Inl ''timeout'' else Inr ?reply)\<rparr>)"
    using m_ok [THEN conjunct1] by (simp add: fr)
  have 2: "cached_snapshot (coordinator_refresh
        (fst (async_update_modbus (\<lambda>_. ''?'') False ?good)) ?c)
      = Some [(''soc'', Scalar 80), (''power'', Scalar 5)]"
    using m_ok [THEN conjunct2] by (simp only: fr)
  have 3: "async_update_modbus (\<lambda>_. ''?'') False ?bad
      = (Inl (UpdateFailed ''Can not retrieve Modbus Data from the VARTA Device.''),
         \<lparr>connects = 2, requests = 2, responses = (\<lambda>n. Inl ''timeout'')\<rparr>)"
    using m_fail [THEN conjunct1] by simp
  have 4: "coordinator_refresh (fst (async_update_modbus (\<lambda>_. ''?'') False ?bad)) ?c = ?c"
    using m_fail by (rule conjunct2)
  have 5: "fst (async_update_cgi (\<lambda>_. ''?'') False ?cgi)
      = Inr [(''u'', Scalar 230), (''total_charge_cycles'', Scalar 12),
             (''serial'', Scalar 7)]"
    using c_ok [THEN conjunct1] by (simp only: fc)
  have 6: "fst (async_update_cgi (\<lambda>_. ''?'') False ?bad)
      = Inl (UpdateFailed ''Can not retrieve CGI Data from the VARTA Device.'')"
    using c_fail by (rule conjunct1)
  have 7: "connects (snd (async_update_cgi (\<lambda>_. ''?'') False ?bad)) = 2"
    using c_fail [THEN conjunct2, THEN conjunct1] by simp
  from 1 2 3 4 5 6 7 show ?thesis
    by blast
qed


end
